theory Spec2Isabelle
  imports Complex_Main "HOL-Library.Word"
begin

section \<open>Knowledge graph: data model\<close>

text \<open>
  The graph view of \<^verbatim>\<open>src/components/insights-panel.tsx\<close> (component
  \<^verbatim>\<open>KnowledgeGraph\<close>). JavaScript numbers are modelled as \<^typ>\<open>real\<close>:
  rounding, infinities and NaN of IEEE doubles are outside this model. An optional field
  of the TypeScript interface is an \<^typ>\<open>'a option\<close>, \<open>None\<close> standing for
  \<^verbatim>\<open>undefined\<close>.
\<close>

record GraphNode =
  node_id :: string
  node_label :: string
  node_size :: "real option"
  node_color :: "string option"
  node_x :: "real option"
  node_y :: "real option"
  node_vx :: "real option"
  node_vy :: "real option"

text \<open>
  An endpoint of a link is declared \<^verbatim>\<open>string | GraphNode\<close>; the fetched JSON may
  also leave it out. \<open>EndOther\<close> is any value that is neither a string nor a node.
\<close>

datatype link_end = EndId string | EndNode GraphNode | EndOther

record GraphLink =
  link_source :: link_end
  link_target :: link_end
  link_weight :: "real option"
  link_label :: "string option"

record GraphData =
  nodes :: "GraphNode list"
  links :: "GraphLink list"

subsection \<open>JavaScript idioms\<close>

text \<open>\<^verbatim>\<open>v || 0\<close> on an optional number: \<^verbatim>\<open>undefined\<close> and \<open>0\<close> both give \<open>0\<close>.\<close>

definition or0 :: "real option \<Rightarrow> real" where
  "or0 v = (case v of None \<Rightarrow> 0 | Some r \<Rightarrow> r)"

text \<open>\<^verbatim>\<open>d || 1\<close> on a number: only the value \<open>0\<close> is replaced.\<close>

definition or1 :: "real \<Rightarrow> real" where
  "or1 d = (if d = 0 then 1 else d)"

text \<open>
  \<^verbatim>\<open>nodes.find((n) => n.id === e)\<close>, as the index of the first match, so that the
  object found can then be mutated in place. \<^verbatim>\<open>===\<close> between a string and a node
  object or another value is false.
\<close>

fun id_matches :: "link_end \<Rightarrow> GraphNode \<Rightarrow> bool" where
  "id_matches (EndId s) n = (node_id n = s)"
| "id_matches (EndNode m) n = False"
| "id_matches EndOther n = False"

fun find_index_from :: "nat \<Rightarrow> link_end \<Rightarrow> GraphNode list \<Rightarrow> nat option" where
  "find_index_from k e [] = None"
| "find_index_from k e (n # ns) = (if id_matches e n then Some k else find_index_from (Suc k) e ns)"

definition find_node :: "GraphNode list \<Rightarrow> link_end \<Rightarrow> nat option" where
  "find_node ns e = find_index_from 0 e ns"

section \<open>One tick of the force simulation (\<^verbatim>\<open>simulate\<close>)\<close>

text \<open>
  The callback copies the array but not the node objects, and mutates the nodes in place.
  The model passes the node list along and writes each mutation as an update at the index
  of the mutated object.
\<close>

definition center_force :: "GraphNode \<Rightarrow> GraphNode" where
  "center_force node =
     (let centerX = 300; centerY = 200; centerForce = 0.01;
          node1 = node\<lparr>node_vx := Some (or0 (node_vx node) + (centerX - or0 (node_x node)) * centerForce)\<rparr>
      in node1\<lparr>node_vy := Some (or0 (node_vy node1) + (centerY - or0 (node_y node1)) * centerForce)\<rparr>)"

definition repel :: "GraphNode \<Rightarrow> GraphNode \<Rightarrow> GraphNode" where
  "repel node other =
     (if node_id node \<noteq> node_id other then
        (let dx = or0 (node_x node) - or0 (node_x other);
             dy = or0 (node_y node) - or0 (node_y other);
             distance = or1 (sqrt (dx * dx + dy * dy));
             force = 500 / (distance * distance);
             node1 = node\<lparr>node_vx := Some (or0 (node_vx node) + (dx / distance) * force)\<rparr>
         in node1\<lparr>node_vy := Some (or0 (node_vy node1) + (dy / distance) * force)\<rparr>)
      else node)"

text \<open>The inner \<^verbatim>\<open>nodes.forEach((other) => ...)\<close> for the node at index \<open>i\<close>.\<close>

definition repel_all :: "nat \<Rightarrow> GraphNode list \<Rightarrow> GraphNode list" where
  "repel_all i ns = foldl (\<lambda>ms j. ms[i := repel (ms ! i) (ms ! j)]) ns [0..<length ns]"

text \<open>The outer \<^verbatim>\<open>nodes.forEach((node) => ...)\<close>.\<close>

definition apply_forces :: "GraphNode list \<Rightarrow> GraphNode list" where
  "apply_forces ns =
     foldl (\<lambda>ms i. repel_all i (ms[i := center_force (ms ! i)])) ns [0..<length ns]"

text \<open>
  One link. \<open>source\<close> and \<open>target\<close> may be the same object; the four assignments are
  made in the order of the source, each reading the current value.
\<close>

definition link_force :: "GraphNode list \<Rightarrow> GraphLink \<Rightarrow> GraphNode list" where
  "link_force ns link =
     (case (find_node ns (link_source link), find_node ns (link_target link)) of
        (Some s, Some t) \<Rightarrow>
          (let dx = or0 (node_x (ns ! t)) - or0 (node_x (ns ! s));
               dy = or0 (node_y (ns ! t)) - or0 (node_y (ns ! s));
               distance = or1 (sqrt (dx * dx + dy * dy));
               targetDistance = 100;
               force = (distance - targetDistance) * 0.1;
               fx = (dx / distance) * force;
               fy = (dy / distance) * force;
               ns1 = ns[s := (ns ! s)\<lparr>node_vx := Some (or0 (node_vx (ns ! s)) + fx)\<rparr>];
               ns2 = ns1[s := (ns1 ! s)\<lparr>node_vy := Some (or0 (node_vy (ns1 ! s)) + fy)\<rparr>];
               ns3 = ns2[t := (ns2 ! t)\<lparr>node_vx := Some (or0 (node_vx (ns2 ! t)) - fx)\<rparr>]
           in ns3[t := (ns3 ! t)\<lparr>node_vy := Some (or0 (node_vy (ns3 ! t)) - fy)\<rparr>])
      | _ \<Rightarrow> ns)"

definition apply_links :: "GraphNode list \<Rightarrow> GraphLink list \<Rightarrow> GraphNode list" where
  "apply_links ns ls = foldl link_force ns ls"

text \<open>Damping, integration and the clamp to the canvas, for one node.\<close>

definition integrate :: "GraphNode \<Rightarrow> GraphNode" where
  "integrate node =
     (let n1 = node\<lparr>node_vx := Some (or0 (node_vx node) * 0.9)\<rparr>;
          n2 = n1\<lparr>node_vy := Some (or0 (node_vy n1) * 0.9)\<rparr>;
          n3 = n2\<lparr>node_x := Some (or0 (node_x n2) + or0 (node_vx n2))\<rparr>;
          n4 = n3\<lparr>node_y := Some (or0 (node_y n3) + or0 (node_vy n3))\<rparr>;
          n5 = n4\<lparr>node_x := Some (max 20 (min 580 (or0 (node_x n4))))\<rparr>
      in n5\<lparr>node_y := Some (max 20 (min 380 (or0 (node_y n5))))\<rparr>)"

text \<open>The state updater passed to \<^verbatim>\<open>setGraphData\<close>; \<open>None\<close> is \<^verbatim>\<open>null\<close>.\<close>

definition simulate :: "GraphData option \<Rightarrow> GraphData option" where
  "simulate prevData =
     (case prevData of
        None \<Rightarrow> None
      | Some g \<Rightarrow> Some (g\<lparr>nodes := map integrate (apply_links (apply_forces (nodes g)) (links g))\<rparr>))"

subsection \<open>The tick as the specification words it\<close>

text \<open>
  Written from the specification's five steps, not from the code: for each node, the sum
  of the centering force, of the repulsion from every node with another identifier and of
  the pull of every link that resolves; then damping, integration and the clamp. The
  guard applied to the distance between two repelling nodes is a parameter: the
  specification's words ("minimum 1") are \<open>max 1\<close>.
\<close>

definition separation :: "GraphNode \<Rightarrow> GraphNode \<Rightarrow> real" where
  "separation a b =
     sqrt ((or0 (node_x a) - or0 (node_x b)) * (or0 (node_x a) - or0 (node_x b))
         + (or0 (node_y a) - or0 (node_y b)) * (or0 (node_y a) - or0 (node_y b)))"

definition repulsion_x :: "(real \<Rightarrow> real) \<Rightarrow> GraphNode \<Rightarrow> GraphNode \<Rightarrow> real" where
  "repulsion_x guard a b =
     (if node_id a \<noteq> node_id b
      then ((or0 (node_x a) - or0 (node_x b)) / guard (separation a b))
           * (500 / (guard (separation a b) * guard (separation a b)))
      else 0)"

definition repulsion_y :: "(real \<Rightarrow> real) \<Rightarrow> GraphNode \<Rightarrow> GraphNode \<Rightarrow> real" where
  "repulsion_y guard a b =
     (if node_id a \<noteq> node_id b
      then ((or0 (node_y a) - or0 (node_y b)) / guard (separation a b))
           * (500 / (guard (separation a b) * guard (separation a b)))
      else 0)"

text \<open>The spring force on the source \<open>s\<close> of a link, towards its target \<open>t\<close>.\<close>

definition spring_x :: "GraphNode \<Rightarrow> GraphNode \<Rightarrow> real" where
  "spring_x s t =
     ((or0 (node_x t) - or0 (node_x s)) / or1 (separation t s)) * ((or1 (separation t s) - 100) * 0.1)"

definition spring_y :: "GraphNode \<Rightarrow> GraphNode \<Rightarrow> real" where
  "spring_y s t =
     ((or0 (node_y t) - or0 (node_y s)) / or1 (separation t s)) * ((or1 (separation t s) - 100) * 0.1)"

text \<open>What one link adds to the velocity of the node at index \<open>k\<close>.\<close>

definition link_pull_x :: "GraphNode list \<Rightarrow> nat \<Rightarrow> GraphLink \<Rightarrow> real" where
  "link_pull_x ns k link =
     (case (find_node ns (link_source link), find_node ns (link_target link)) of
        (Some s, Some t) \<Rightarrow>
          (if k = s then spring_x (ns ! s) (ns ! t) else 0)
          - (if k = t then spring_x (ns ! s) (ns ! t) else 0)
      | _ \<Rightarrow> 0)"

definition link_pull_y :: "GraphNode list \<Rightarrow> nat \<Rightarrow> GraphLink \<Rightarrow> real" where
  "link_pull_y ns k link =
     (case (find_node ns (link_source link), find_node ns (link_target link)) of
        (Some s, Some t) \<Rightarrow>
          (if k = s then spring_y (ns ! s) (ns ! t) else 0)
          - (if k = t then spring_y (ns ! s) (ns ! t) else 0)
      | _ \<Rightarrow> 0)"

definition tick_vx :: "(real \<Rightarrow> real) \<Rightarrow> GraphNode list \<Rightarrow> GraphLink list \<Rightarrow> nat \<Rightarrow> real" where
  "tick_vx guard ns ls k =
     (or0 (node_vx (ns ! k)) + 0.01 * (300 - or0 (node_x (ns ! k)))
      + sum_list (map (repulsion_x guard (ns ! k)) ns)
      + sum_list (map (link_pull_x ns k) ls)) * 0.9"

definition tick_vy :: "(real \<Rightarrow> real) \<Rightarrow> GraphNode list \<Rightarrow> GraphLink list \<Rightarrow> nat \<Rightarrow> real" where
  "tick_vy guard ns ls k =
     (or0 (node_vy (ns ! k)) + 0.01 * (200 - or0 (node_y (ns ! k)))
      + sum_list (map (repulsion_y guard (ns ! k)) ns)
      + sum_list (map (link_pull_y ns k) ls)) * 0.9"

definition tick_node :: "(real \<Rightarrow> real) \<Rightarrow> GraphNode list \<Rightarrow> GraphLink list \<Rightarrow> nat \<Rightarrow> GraphNode" where
  "tick_node guard ns ls k =
     (ns ! k)\<lparr>node_x := Some (max 20 (min 580 (or0 (node_x (ns ! k)) + tick_vx guard ns ls k))),
              node_y := Some (max 20 (min 380 (or0 (node_y (ns ! k)) + tick_vy guard ns ls k))),
              node_vx := Some (tick_vx guard ns ls k),
              node_vy := Some (tick_vy guard ns ls k)\<rparr>"

definition tick_spec :: "(real \<Rightarrow> real) \<Rightarrow> GraphData \<Rightarrow> GraphData" where
  "tick_spec guard g = g\<lparr>nodes := map (tick_node guard (nodes g) (links g)) [0..<length (nodes g)]\<rparr>"

subsection \<open>The canvas bounds\<close>

definition in_bounds :: "GraphNode \<Rightarrow> bool" where
  "in_bounds n =
     (case (node_x n, node_y n) of
        (Some px, Some py) \<Rightarrow> 20 \<le> px \<and> px \<le> 580 \<and> 20 \<le> py \<and> py \<le> 380
      | _ \<Rightarrow> False)"

section \<open>Shared pieces: strings, exceptions, toasts, HTTP\<close>

text \<open>Decimal rendering of a number inside a template literal.\<close>

definition digit_char :: "nat \<Rightarrow> char" where
  "digit_char d = ''0123456789'' ! (d mod 10)"

fun show_nat :: "nat \<Rightarrow> string" where
  "show_nat n = (if n < 10 then [digit_char n] else show_nat (n div 10) @ [digit_char (n mod 10)])"

declare show_nat.simps [simp del]

text \<open>\<^verbatim>\<open>s.includes(sub)\<close>.\<close>

fun starts_with :: "string \<Rightarrow> string \<Rightarrow> bool" where
  "starts_with s [] = True"
| "starts_with [] (c # sub) = False"
| "starts_with (d # s) (c # sub) = (d = c \<and> starts_with s sub)"

fun str_includes :: "string \<Rightarrow> string \<Rightarrow> bool" where
  "str_includes [] sub = (sub = [])"
| "str_includes (d # s) sub = (starts_with (d # s) sub \<or> str_includes s sub)"

text \<open>\<^verbatim>\<open>a || b\<close> on an optional string and on an optional number: the empty string, \<open>0\<close>
  and \<^verbatim>\<open>undefined\<close> are falsy.\<close>

definition or_str :: "string option \<Rightarrow> string \<Rightarrow> string" where
  "or_str v d = (case v of None \<Rightarrow> d | Some s \<Rightarrow> if s = [] then d else s)"

definition or_num :: "real option \<Rightarrow> real \<Rightarrow> real" where
  "or_num v d = (case v of None \<Rightarrow> d | Some r \<Rightarrow> if r = 0 then d else r)"

text \<open>A thrown value: an \<^verbatim>\<open>Error\<close> with its message, or anything else.\<close>

datatype js_exn = Error string | NonError

text \<open>\<^verbatim>\<open>err instanceof Error ? err.message : d\<close>.\<close>

definition message_or :: "string \<Rightarrow> js_exn \<Rightarrow> string" where
  "message_or d err = (case err of Error m \<Rightarrow> m | NonError \<Rightarrow> d)"

text \<open>The message of the TypeError raised by a property read on \<^verbatim>\<open>undefined\<close> or
  \<^verbatim>\<open>null\<close> (the wording is the engine's; this is V8's).\<close>

definition type_error :: "string \<Rightarrow> js_exn" where
  "type_error prop = Error (''Cannot read properties of undefined (reading '' @ [CHR 0x27] @ prop @ [CHR 0x27] @ '')'')"

record toast_msg =
  toast_title :: string
  toast_description :: string
  toast_variant :: "string option"

text \<open>What \<^verbatim>\<open>await fetch(...)\<close> gives: a rejection, or a response whose body reads
  (\<^verbatim>\<open>text()\<close>, \<^verbatim>\<open>json()\<close>) may themselves throw.\<close>

record 'a http_response =
  resp_ok :: bool
  resp_statusText :: string
  resp_contentType :: "string option"
  resp_text :: "js_exn + string"
  resp_json :: "js_exn + 'a"

datatype 'a fetch_result = Rejected js_exn | Resolved "'a http_response"

text \<open>\<^verbatim>\<open>Math.random()\<close>: a sequence of numbers and the position reached in it.\<close>

type_synonym rng = "(nat \<Rightarrow> real) \<times> nat"

definition random :: "rng \<Rightarrow> real \<times> rng" where
  "random g = (fst g (snd g), (fst g, Suc (snd g)))"

section \<open>Knowledge graph: view state, fetch, interaction, rendering\<close>

record graph_view =
  graphData :: "GraphData option"
  isLoading :: bool
  graph_error :: "string option"
  selectedNode :: "GraphNode option"
  zoom :: real
  pan_x :: real
  pan_y :: real
  graph_toasts :: "toast_msg list"

subsection \<open>\<^verbatim>\<open>fetchGraphData\<close>\<close>

text \<open>The JSON of the graph endpoint. \<open>None\<close> for \<open>json_nodes\<close> or \<open>json_links\<close>: the
  property is missing (or the whole value is \<^verbatim>\<open>null\<close>), so that reading
  \<^verbatim>\<open>.map\<close> on it throws.\<close>

record raw_node =
  raw_id :: "string option"
  raw_label :: "string option"
  raw_name :: "string option"
  raw_size :: "real option"
  raw_color :: "string option"

record raw_link =
  raw_source :: link_end
  raw_target :: link_end
  raw_weight :: "real option"
  raw_link_label :: "string option"

record graph_json =
  json_nodes :: "raw_node list option"
  json_links :: "raw_link list option"

definition getNodeColor :: "nat \<Rightarrow> string" where
  "getNodeColor index =
     [''#dc2626'', ''#f59e0b'', ''#10b981'', ''#3b82f6'',
      ''#8b5cf6'', ''#f97316'', ''#06b6d4'', ''#84cc16''] ! (index mod 8)"

text \<open>One element of \<^verbatim>\<open>data.nodes.map((node, index) => ...)\<close>. \<^verbatim>\<open>Math.random()\<close> is
  called for the size only when \<^verbatim>\<open>node.size\<close> is falsy, then for x, then for y.\<close>

definition process_node :: "nat \<Rightarrow> raw_node \<Rightarrow> rng \<Rightarrow> GraphNode \<times> rng" where
  "process_node index node g0 =
     (let (sz, g1) = (if or_num (raw_size node) 0 \<noteq> 0 then (or_num (raw_size node) 0, g0)
                      else (let (r, g) = random g0 in (r * 20 + 10, g)));
          (rx, g2) = random g1;
          (ry, g3) = random g2
      in (\<lparr>node_id = or_str (raw_id node) (''node-'' @ show_nat index),
           node_label = or_str (raw_label node)
                          (or_str (raw_name node) (''Concept '' @ show_nat (index + 1))),
           node_size = Some sz,
           node_color = Some (or_str (raw_color node) (getNodeColor index)),
           node_x = Some (rx * 400 + 100),
           node_y = Some (ry * 300 + 100),
           node_vx = Some 0,
           node_vy = Some 0\<rparr>, g3))"

fun process_nodes :: "nat \<Rightarrow> raw_node list \<Rightarrow> rng \<Rightarrow> GraphNode list" where
  "process_nodes index [] g = []"
| "process_nodes index (node # rest) g =
     (let (n, g') = process_node index node g in n # process_nodes (Suc index) rest g')"

definition process_link :: "raw_link \<Rightarrow> GraphLink" where
  "process_link link =
     \<lparr>link_source = raw_source link,
      link_target = raw_target link,
      link_weight = Some (or_num (raw_weight link) 1),
      link_label = Some (or_str (raw_link_label link) '''')\<rparr>"

text \<open>The \<^verbatim>\<open>try\<close> block up to \<open>processedData\<close>: the exception thrown, or the data.\<close>

definition fetch_graph_try :: "graph_json fetch_result \<Rightarrow> rng \<Rightarrow> js_exn + GraphData" where
  "fetch_graph_try res g =
     (case res of
        Rejected e \<Rightarrow> Inl e
      | Resolved response \<Rightarrow>
          if \<not> resp_ok response
          then Inl (Error (''Failed to fetch graph data: '' @ resp_statusText response))
          else (case resp_json response of
                  Inl e \<Rightarrow> Inl e
                | Inr data \<Rightarrow>
                    (case json_nodes data of
                       None \<Rightarrow> Inl (type_error ''map'')
                     | Some ns \<Rightarrow>
                         (case json_links data of
                            None \<Rightarrow> Inl (type_error ''map'')
                          | Some ls \<Rightarrow>
                              Inr \<lparr>nodes = process_nodes 0 ns g, links = map process_link ls\<rparr>))))"

definition fetchGraphData :: "graph_view \<Rightarrow> graph_json fetch_result \<Rightarrow> rng \<Rightarrow> graph_view" where
  "fetchGraphData st res g =
     (let st1 = st\<lparr>isLoading := True, graph_error := None\<rparr>;
          st2 = (case fetch_graph_try res g of
                   Inr processedData \<Rightarrow>
                     st1\<lparr>graphData := Some processedData,
                         graph_toasts := graph_toasts st1 @
                           [\<lparr>toast_title = ''Knowledge graph loaded'',
                             toast_description =
                               ''Visualizing '' @ show_nat (length (nodes processedData))
                               @ '' concepts and '' @ show_nat (length (links processedData))
                               @ '' connections.'',
                             toast_variant = None\<rparr>]\<rparr>
                 | Inl err \<Rightarrow>
                     st1\<lparr>graph_error := Some (message_or ''Failed to load knowledge graph'' err),
                         graph_toasts := graph_toasts st1 @
                           [\<lparr>toast_title = ''Failed to load knowledge graph'',
                             toast_description = message_or ''Failed to load knowledge graph'' err,
                             toast_variant = Some ''destructive''\<rparr>]\<rparr>)
      in st2\<lparr>isLoading := False\<rparr>)"

definition resetGraph :: "graph_view \<Rightarrow> graph_json fetch_result \<Rightarrow> rng \<Rightarrow> graph_view" where
  "resetGraph st res g =
     fetchGraphData (st\<lparr>graphData := None, selectedNode := None, zoom := 1, pan_x := 0, pan_y := 0\<rparr>) res g"

subsection \<open>Selection, zoom, drag\<close>

definition handleNodeClick :: "GraphNode \<Rightarrow> graph_view \<Rightarrow> graph_view" where
  "handleNodeClick node st = st\<lparr>selectedNode := Some node\<rparr>"

definition zoomIn :: "graph_view \<Rightarrow> graph_view" where
  "zoomIn st = st\<lparr>zoom := min (zoom st * 1.2) 3\<rparr>"

definition zoomOut :: "graph_view \<Rightarrow> graph_view" where
  "zoomOut st = st\<lparr>zoom := max (zoom st / 1.2) 0.5\<rparr>"








subsection \<open>Rendering of the SVG\<close>

record svg_line =
  line_x1 :: "real option"
  line_y1 :: "real option"
  line_x2 :: "real option"
  line_y2 :: "real option"
  line_strokeWidth :: real

record svg_node =
  circle_cx :: "real option"
  circle_cy :: "real option"
  circle_r :: "real option"
  circle_fill :: "string option"
  circle_stroke :: string
  circle_strokeWidth :: nat
  text_x :: "real option"
  text_y :: "real option"
  text_content :: string

text \<open>One element of \<^verbatim>\<open>graphData.links.map(...)\<close>: \<open>None\<close> is the \<^verbatim>\<open>null\<close> returned for
  a link with an endpoint that is not found.\<close>

definition render_link :: "GraphNode list \<Rightarrow> GraphLink \<Rightarrow> svg_line option" where
  "render_link ns link =
     (case (find_node ns (link_source link), find_node ns (link_target link)) of
        (Some s, Some t) \<Rightarrow>
          Some \<lparr>line_x1 = node_x (ns ! s), line_y1 = node_y (ns ! s),
                line_x2 = node_x (ns ! t), line_y2 = node_y (ns ! t),
                line_strokeWidth = sqrt (or_num (link_weight link) 1)\<rparr>
      | _ \<Rightarrow> None)"

definition render_node :: "GraphNode option \<Rightarrow> GraphNode \<Rightarrow> svg_node" where
  "render_node sel node =
     (let selected = (case sel of None \<Rightarrow> False | Some s \<Rightarrow> node_id s = node_id node)
      in \<lparr>circle_cx = node_x node, circle_cy = node_y node, circle_r = node_size node,
          circle_fill = node_color node,
          circle_stroke = (if selected then ''#000'' else ''#fff''),
          circle_strokeWidth = (if selected then 3 else 2),
          text_x = node_x node,
          text_y = (case (node_y node, node_size node) of
                      (Some py, Some sz) \<Rightarrow> Some (py + (sz + 15))
                    | _ \<Rightarrow> None),
          text_content = (if length (node_label node) > 12
                          then take 12 (node_label node) @ ''...''
                          else node_label node)\<rparr>)"

text \<open>The SVG is rendered when \<^verbatim>\<open>graphData && !isLoading\<close>.\<close>

definition render_graph :: "graph_view \<Rightarrow> (svg_line option list \<times> svg_node list) option" where
  "render_graph st =
     (case graphData st of
        None \<Rightarrow> None
      | Some g \<Rightarrow>
          if isLoading st then None
          else Some (map (render_link (nodes g)) (links g),
                     map (render_node (selectedNode st)) (nodes g)))"

section \<open>Document upload (\<^verbatim>\<open>DocumentUpload\<close>)\<close>

record File =
  file_name :: string
  file_size :: nat
  file_type :: string

datatype upload_status = StatusUploading | StatusSuccess | StatusError

record UploadedDocument =
  doc_name :: string
  doc_size :: nat
  doc_status :: upload_status

text \<open>The parsed body of the upload endpoint's answer; the count is kept as the text that a
  template literal makes of it.\<close>

record upload_json =
  cluster_id :: string
  processed_files_count :: string

text \<open>
  The state of the component, with three logs of what it does to the outside: the toasts
  shown, the batches sent with \<^verbatim>\<open>fetch\<close>, and the calls of \<^verbatim>\<open>onUploadComplete\<close>.
\<close>

record upload_view =
  files :: "UploadedDocument list"
  isUploading :: bool
  uploadProgress :: nat
  upload_error :: "string option"
  upload_toasts :: "toast_msg list"
  upload_requests :: "File list list"
  upload_completions :: "(string \<times> string list) list"

text \<open>
  The environment of one upload: how the request ends (a parsed body of \<open>None\<close> is
  \<^verbatim>\<open>null\<close>), the value of \<^verbatim>\<open>Date.now()\<close>, and how many times the 200 ms progress
  timer fires before the request ends.
\<close>

record upload_env =
  env_fetch :: "upload_json option fetch_result"
  env_now :: nat
  env_ticks :: nat

definition progress_tick :: "nat \<Rightarrow> nat" where
  "progress_tick prev = (if prev \<ge> 90 then prev else prev + 10)"

definition set_status :: "upload_status \<Rightarrow> UploadedDocument list \<Rightarrow> UploadedDocument list" where
  "set_status s prev = map (\<lambda>file. file\<lparr>doc_status := s\<rparr>) prev"

text \<open>The inner \<^verbatim>\<open>try\<close> block: the exception its \<^verbatim>\<open>catch\<close> receives, or the parsed body.\<close>

definition upload_request :: "upload_json option fetch_result \<Rightarrow> js_exn + upload_json option" where
  "upload_request res =
     (case res of
        Rejected e \<Rightarrow> Inl e
      | Resolved response \<Rightarrow>
          if \<not> resp_ok response
          then Inl (Error (''Upload failed: '' @ resp_statusText response))
          else if or_str (resp_contentType response) '''' = ''''
                  \<or> \<not> str_includes (or_str (resp_contentType response) '''') ''application/json''
          then (case resp_text response of
                  Inl e \<Rightarrow> Inl e
                | Inr text \<Rightarrow>
                    if str_includes text ''<!DOCTYPE'' \<or> str_includes text ''<html''
                    then Inl (Error ''API_NOT_AVAILABLE'')
                    else Inl (Error ''Server returned non-JSON response''))
          else resp_json response)"

text \<open>The test of the inner \<^verbatim>\<open>catch\<close> that switches to the demo mode.\<close>

definition api_unavailable :: "js_exn \<Rightarrow> bool" where
  "api_unavailable fetchError =
     (case fetchError of
        NonError \<Rightarrow> False
      | Error m \<Rightarrow> str_includes m ''API_NOT_AVAILABLE'' \<or> str_includes m ''Failed to fetch''
                   \<or> str_includes m ''NetworkError'')"

text \<open>The outer \<^verbatim>\<open>catch\<close> and \<^verbatim>\<open>finally\<close>.\<close>

definition upload_failed :: "js_exn \<Rightarrow> upload_view \<Rightarrow> upload_view" where
  "upload_failed err st =
     (let errorMessage = message_or ''Upload failed'' err
      in st\<lparr>upload_error := Some errorMessage,
            files := set_status StatusError (files st),
            upload_toasts := upload_toasts st @
              [\<lparr>toast_title = ''Upload failed'', toast_description = errorMessage,
                toast_variant = Some ''destructive''\<rparr>],
            isUploading := False\<rparr>)"

definition uploadFiles :: "upload_view \<Rightarrow> upload_env \<Rightarrow> File list \<Rightarrow> upload_view" where
  "uploadFiles st env filesToUpload =
     (let st1 = st\<lparr>isUploading := True, uploadProgress := 0\<rparr>;
          st2 = st1\<lparr>upload_requests := upload_requests st1 @ [filesToUpload]\<rparr>;
          st3 = st2\<lparr>uploadProgress := (progress_tick ^^ env_ticks env) (uploadProgress st2)\<rparr>;
          st4 = st3\<lparr>uploadProgress := 100\<rparr>
      in (case upload_request (env_fetch env) of
            Inl fetchError \<Rightarrow>
              if api_unavailable fetchError
              then (let st5 = st4\<lparr>upload_toasts := upload_toasts st4 @
                            [\<lparr>toast_title = ''Demo Mode Active'',
                              toast_description =
                                ''Backend API not available. Using demo mode for testing.'',
                              toast_variant = Some ''default''\<rparr>]\<rparr>;
                        st6 = st5\<lparr>files := set_status StatusSuccess (files st5)\<rparr>
                    in st6\<lparr>upload_toasts := upload_toasts st6 @
                            [\<lparr>toast_title = ''Upload successful'',
                              toast_description = show_nat (length filesToUpload)
                                @ '' documents uploaded successfully.'',
                              toast_variant = None\<rparr>],
                          upload_completions := upload_completions st6 @
                            [(''demo_cluster_'' @ show_nat (env_now env), map file_name filesToUpload)],
                          isUploading := False\<rparr>)
              else upload_failed fetchError st4
          | Inr result \<Rightarrow>
              (let st5 = st4\<lparr>files := set_status StatusSuccess (files st4)\<rparr>
               in (case result of
                     None \<Rightarrow> upload_failed (type_error ''processed_files_count'') st5
                   | Some r \<Rightarrow>
                       st5\<lparr>upload_toasts := upload_toasts st5 @
                             [\<lparr>toast_title = ''Upload successful'',
                               toast_description = processed_files_count r
                                 @ '' documents uploaded successfully.'',
                               toast_variant = None\<rparr>],
                           upload_completions := upload_completions st5 @
                             [(cluster_id r, map file_name filesToUpload)],
                           isUploading := False\<rparr>))))"

definition handleFiles :: "upload_view \<Rightarrow> upload_env \<Rightarrow> File list \<Rightarrow> upload_view" where
  "handleFiles st env selectedFiles =
     (let pdfFiles = filter (\<lambda>file. file_type file = ''application/pdf'') selectedFiles;
          st1 = (if length pdfFiles \<noteq> length selectedFiles
                 then st\<lparr>upload_toasts := upload_toasts st @
                        [\<lparr>toast_title = ''Invalid files detected'',
                          toast_description =
                            ''Only PDF files are supported. Non-PDF files have been filtered out.'',
                          toast_variant = Some ''destructive''\<rparr>]\<rparr>
                 else st)
      in if length pdfFiles = 0
         then st1\<lparr>upload_toasts := upload_toasts st1 @
                [\<lparr>toast_title = ''No valid files'',
                  toast_description = ''Please select PDF files to upload.'',
                  toast_variant = Some ''destructive''\<rparr>]\<rparr>
         else uploadFiles
                (st1\<lparr>files := map (\<lambda>file. \<lparr>doc_name = file_name file, doc_size = file_size file,
                                              doc_status = StatusUploading\<rparr>) pdfFiles,
                      upload_error := None\<rparr>)
                env pdfFiles)"

section \<open>Text selection in the PDF viewer (\<^verbatim>\<open>src/components/pdf-viewer.tsx\<close>)\<close>

text \<open>
  The text of a selection is a JavaScript string: a sequence of UTF-16 code units.
  \<^verbatim>\<open>String.prototype.trim\<close> removes, at both ends, the code units that are white space
  or line terminators of ECMAScript: U+0009 to U+000D, U+0020, U+00A0, U+FEFF, the other
  space separators of Unicode (U+1680, U+2000 to U+200A, U+202F, U+205F, U+3000) and the
  line and paragraph separators U+2028 and U+2029. All of them are single code units.
\<close>

type_synonym code_unit = "16 word"

type_synonym js_string = "code_unit list"

text \<open>The code units of an ASCII literal.\<close>

definition utf16 :: "string \<Rightarrow> js_string" where
  "utf16 s = map of_char s"

definition is_space :: "code_unit \<Rightarrow> bool" where
  "is_space c =
     (c \<in> set [0x0009, 0x000A, 0x000B, 0x000C, 0x000D, 0x0020, 0x00A0, 0x1680,
                0x2000, 0x2001, 0x2002, 0x2003, 0x2004, 0x2005, 0x2006, 0x2007,
                0x2008, 0x2009, 0x200A, 0x2028, 0x2029, 0x202F, 0x205F, 0x3000, 0xFEFF])"

definition trim :: "js_string \<Rightarrow> js_string" where
  "trim s = rev (dropWhile is_space (rev (dropWhile is_space s)))"

text \<open>
  An event of the embedded viewer: its type and \<^verbatim>\<open>event.data?.selection?.text\<close>, \<open>None\<close>
  when any link of that chain is missing. A missing text and the empty text are both
  falsy.
\<close>

record viewer_event =
  event_type :: string
  event_text :: "js_string option"

definition or_text :: "js_string option \<Rightarrow> js_string" where
  "or_text v = (case v of None \<Rightarrow> [] | Some t \<Rightarrow> t)"

text \<open>The listener registered with the embedded viewer (\<^verbatim>\<open>registerCallback\<close> in
  \<^verbatim>\<open>initializePDFViewer\<close>): the call of \<^verbatim>\<open>onTextSelection\<close> it makes, if any.\<close>

definition selection_listener :: "string \<Rightarrow> viewer_event \<Rightarrow> (js_string \<times> string) option" where
  "selection_listener documentName event =
     (if event_type event = ''SELECTION_END'' \<and> or_text (event_text event) \<noteq> []
      then (let selectedText = trim (or_text (event_text event))
            in if selectedText \<noteq> [] then Some (selectedText, documentName) else None)
      else None)"

section \<open>Notions used to state the properties\<close>

text \<open>A sequence of presses on the two zoom buttons.\<close>

datatype zoom_button = ZoomInButton | ZoomOutButton

fun press :: "zoom_button \<Rightarrow> graph_view \<Rightarrow> graph_view" where
  "press ZoomInButton st = zoomIn st"
| "press ZoomOutButton st = zoomOut st"

text \<open>A graph fetch that fails or returns malformed data: a rejected request, a
  non-success response, a body that does not parse, or a missing \<open>nodes\<close> or \<open>links\<close>
  array.\<close>

definition graph_fetch_fails :: "graph_json fetch_result \<Rightarrow> bool" where
  "graph_fetch_fails res =
     (case res of
        Rejected e \<Rightarrow> True
      | Resolved response \<Rightarrow>
          \<not> resp_ok response
          \<or> (case resp_json response of
                Inl e \<Rightarrow> True
              | Inr data \<Rightarrow> json_nodes data = None \<or> json_links data = None))"

text \<open>An upload that fails by a network error or a non-success response, with the
  exception that the code has in hand then.\<close>

definition upload_failure :: "upload_json option fetch_result \<Rightarrow> js_exn option" where
  "upload_failure res =
     (case res of
        Rejected e \<Rightarrow> Some e
      | Resolved response \<Rightarrow>
          if \<not> resp_ok response
          then Some (Error (''Upload failed: '' @ resp_statusText response))
          else None)"

text \<open>What the normalisation of a fetched graph establishes for a node and for a link.\<close>

definition normalized_node :: "GraphNode \<Rightarrow> bool" where
  "normalized_node n =
     (node_id n \<noteq> '''' \<and> node_label n \<noteq> '''' \<and> node_size n \<noteq> None
      \<and> node_color n \<noteq> None \<and> node_vx n = Some 0 \<and> node_vy n = Some 0
      \<and> (case (node_x n, node_y n) of
            (Some px, Some py) \<Rightarrow> 100 \<le> px \<and> px < 500 \<and> 100 \<le> py \<and> py < 400
          | _ \<Rightarrow> False))"

definition normalized_link :: "raw_link \<Rightarrow> GraphLink \<Rightarrow> bool" where
  "normalized_link raw l =
     (link_source l = raw_source raw \<and> link_target l = raw_target raw
      \<and> link_weight l = Some (case raw_weight raw of None \<Rightarrow> 1 | Some w \<Rightarrow> if w = 0 then 1 else w)
      \<and> link_label l = Some (case raw_link_label raw of None \<Rightarrow> '''' | Some s \<Rightarrow> s))"

text \<open>A node without its velocity: what a tick reads of the other nodes, and what the
  force steps leave unchanged.\<close>

definition at_rest :: "GraphNode \<Rightarrow> GraphNode" where
  "at_rest n = n\<lparr>node_vx := None, node_vy := None\<rparr>"

text \<open>The initial states of the two components (their \<^verbatim>\<open>useState\<close> defaults).\<close>

definition initial_graph_view :: graph_view where
  "initial_graph_view =
     \<lparr>graphData = None, isLoading = False, graph_error = None, selectedNode = None,
      zoom = 1, pan_x = 0, pan_y = 0, graph_toasts = []\<rparr>"

definition initial_upload_view :: upload_view where
  "initial_upload_view =
     \<lparr>files = [], isUploading = False, uploadProgress = 0, upload_error = None,
      upload_toasts = [], upload_requests = [], upload_completions = []\<rparr>"

section \<open>Properties of the simulation tick\<close>

subsection \<open>The tick keeps the node count and lands inside the canvas\<close>

lemma in_bounds_integrate: "in_bounds (integrate n)"
  by (simp add: integrate_def in_bounds_def Let_def)

lemma length_repel_all: "length (repel_all i ns) = length ns"
proof -
  have "length (foldl (\<lambda>ms j. ms[i := repel (ms ! i) (ms ! j)]) ms js) = length ms" for ms js
    by (induction js arbitrary: ms) simp_all
  then show ?thesis by (simp add: repel_all_def)
qed

lemma length_apply_forces: "length (apply_forces ns) = length ns"
proof -
  have "length (foldl (\<lambda>ms i. repel_all i (ms[i := center_force (ms ! i)])) ms js) = length ms"
    for ms js
    by (induction js arbitrary: ms) (simp_all add: length_repel_all)
  then show ?thesis by (simp add: apply_forces_def)
qed

lemma length_link_force: "length (link_force ns l) = length ns"
  by (simp add: link_force_def Let_def split: option.splits)

lemma length_apply_links: "length (apply_links ns ls) = length ns"
  unfolding apply_links_def by (induction ls arbitrary: ns) (simp_all add: length_link_force)

lemma simulate_Some:
  "\<exists>g'. simulate (Some g) = Some g' \<and> length (nodes g') = length (nodes g)
       \<and> links g' = links g \<and> list_all in_bounds (nodes g')"
  by (simp add: simulate_def length_apply_links length_apply_forces list_all_iff in_bounds_integrate)

text \<open>
  Claim C2. Whatever the nodes and the links are (resolving or not), after any positive
  number of simulation ticks the graph is still there, has as many nodes as before, and
  every node has a position with x in [20, 580] and y in [20, 380].
\<close>

theorem positions_stay_in_bounds:
  "0 < k \<Longrightarrow>
   \<exists>g'. (simulate ^^ k) (Some g) = Some g' \<and> length (nodes g') = length (nodes g)
        \<and> list_all in_bounds (nodes g')"
proof (induction k arbitrary: g)
  case 0
  then show ?case by simp
next
  case (Suc k)
  show ?case
  proof (cases "k = 0")
    case True
    then show ?thesis using simulate_Some[of g] by auto
  next
    case False
    then obtain g1 where "(simulate ^^ k) (Some g) = Some g1"
      and "length (nodes g1) = length (nodes g)"
      using Suc.IH[of g] by auto
    then show ?thesis using simulate_Some[of g1] by auto
  qed
qed

theorem positions_stay_in_bounds_witness:
  "0 < (2::nat) \<and>
   (\<exists>g'. (simulate ^^ 2)
           (Some \<lparr>nodes = [\<lparr>node_id = ''a'', node_label = ''A'', node_size = None, node_color = None,
                             node_x = Some 1000, node_y = Some (- 50), node_vx = None, node_vy = None\<rparr>,
                            \<lparr>node_id = ''b'', node_label = ''B'', node_size = None, node_color = None,
                             node_x = Some 30, node_y = Some 390, node_vx = Some 7, node_vy = Some 2\<rparr>],
                   links = [\<lparr>link_source = EndId ''a'', link_target = EndId ''b'',
                             link_weight = None, link_label = None\<rparr>]\<rparr>) = Some g'
        \<and> length (nodes g') = 2 \<and> list_all in_bounds (nodes g'))"
  using positions_stay_in_bounds
    [of 2 "\<lparr>nodes = [\<lparr>node_id = ''a'', node_label = ''A'', node_size = None, node_color = None,
                       node_x = Some 1000, node_y = Some (- 50), node_vx = None, node_vy = None\<rparr>,
                      \<lparr>node_id = ''b'', node_label = ''B'', node_size = None, node_color = None,
                       node_x = Some 30, node_y = Some 390, node_vx = Some 7, node_vy = Some 2\<rparr>],
             links = [\<lparr>link_source = EndId ''a'', link_target = EndId ''b'',
                       link_weight = None, link_label = None\<rparr>]\<rparr>"]
  by (simp add: numeral_2_eq_2)

section \<open>Properties of the upload\<close>

text \<open>
  Claim C5. When no submitted file has the declared media type \<^verbatim>\<open>application/pdf\<close>,
  \<^verbatim>\<open>handleFiles\<close> only shows toasts, the last of them the rejection "No valid files"
  (preceded by "Invalid files detected" when the batch was not empty): the file list is
  not modified and no upload request is issued.
\<close>

theorem no_valid_files_rejected:
  "filter (\<lambda>file. file_type file = ''application/pdf'') selectedFiles = [] \<Longrightarrow>
   handleFiles st env selectedFiles =
     st\<lparr>upload_toasts := upload_toasts st
          @ (if selectedFiles = [] then []
             else [\<lparr>toast_title = ''Invalid files detected'',
                    toast_description =
                      ''Only PDF files are supported. Non-PDF files have been filtered out.'',
                    toast_variant = Some ''destructive''\<rparr>])
          @ [\<lparr>toast_title = ''No valid files'',
               toast_description = ''Please select PDF files to upload.'',
               toast_variant = Some ''destructive''\<rparr>]\<rparr>
   \<and> files (handleFiles st env selectedFiles) = files st
   \<and> upload_requests (handleFiles st env selectedFiles) = upload_requests st"
  by (auto simp add: handleFiles_def Let_def)

theorem no_valid_files_rejected_witness:
  "filter (\<lambda>file. file_type file = ''application/pdf'')
      [\<lparr>file_name = ''notes.txt'', file_size = 12, file_type = ''text/plain''\<rparr>] = []
   \<and> files (handleFiles initial_upload_view
        \<lparr>env_fetch = Rejected NonError, env_now = 0, env_ticks = 0\<rparr>
        [\<lparr>file_name = ''notes.txt'', file_size = 12, file_type = ''text/plain''\<rparr>]) = []
   \<and> upload_requests (handleFiles initial_upload_view
        \<lparr>env_fetch = Rejected NonError, env_now = 0, env_ticks = 0\<rparr>
        [\<lparr>file_name = ''notes.txt'', file_size = 12, file_type = ''text/plain''\<rparr>]) = []
   \<and> map toast_title (upload_toasts (handleFiles initial_upload_view
        \<lparr>env_fetch = Rejected NonError, env_now = 0, env_ticks = 0\<rparr>
        [\<lparr>file_name = ''notes.txt'', file_size = 12, file_type = ''text/plain''\<rparr>]))
       = [''Invalid files detected'', ''No valid files'']"
  using no_valid_files_rejected
    [of "[\<lparr>file_name = ''notes.txt'', file_size = 12, file_type = ''text/plain''\<rparr>]"
        initial_upload_view "\<lparr>env_fetch = Rejected NonError, env_now = 0, env_ticks = 0\<rparr>"]
  by (simp add: initial_upload_view_def)

lemma uploadFiles_failure:
  "upload_request (env_fetch env) = Inl err \<Longrightarrow> \<not> api_unavailable err \<Longrightarrow>
   uploadFiles st env fs =
     st\<lparr>isUploading := False, uploadProgress := 100,
        upload_requests := upload_requests st @ [fs],
        upload_error := Some (message_or ''Upload failed'' err),
        files := set_status StatusError (files st),
        upload_toasts := upload_toasts st @
          [\<lparr>toast_title = ''Upload failed'', toast_description = message_or ''Upload failed'' err,
            toast_variant = Some ''destructive''\<rparr>]\<rparr>"
  by (simp add: uploadFiles_def upload_failed_def Let_def)

lemma upload_failure_request:
  "upload_failure res = Some err \<Longrightarrow> upload_request res = Inl err"
  by (auto simp add: upload_failure_def upload_request_def split: fetch_result.splits if_splits)

text \<open>
  Claim C4, as stated, fails: a rejected request whose message contains "Failed to fetch"
  (what a browser reports for a network error) switches \<^verbatim>\<open>uploadFiles\<close> to its demo
  mode, and both files of the batch end with the status \<open>success\<close> and no error.
\<close>

theorem network_error_demo_mode_counterexample:
  "upload_failure (Rejected (Error ''Failed to fetch'')) = Some (Error ''Failed to fetch'')
   \<and> map doc_status (files (handleFiles initial_upload_view
        \<lparr>env_fetch = Rejected (Error ''Failed to fetch''), env_now = 0, env_ticks = 3\<rparr>
        [\<lparr>file_name = ''a.pdf'', file_size = 10, file_type = ''application/pdf''\<rparr>,
         \<lparr>file_name = ''b.pdf'', file_size = 20, file_type = ''application/pdf''\<rparr>]))
     = [StatusSuccess, StatusSuccess]
   \<and> upload_error (handleFiles initial_upload_view
        \<lparr>env_fetch = Rejected (Error ''Failed to fetch''), env_now = 0, env_ticks = 3\<rparr>
        [\<lparr>file_name = ''a.pdf'', file_size = 10, file_type = ''application/pdf''\<rparr>,
         \<lparr>file_name = ''b.pdf'', file_size = 20, file_type = ''application/pdf''\<rparr>]) = None"
  by (simp add: upload_failure_def handleFiles_def uploadFiles_def upload_request_def
      api_unavailable_def initial_upload_view_def set_status_def Let_def)

lemma uploadFiles_demo:
  "upload_request (env_fetch env) = Inl err \<Longrightarrow> api_unavailable err \<Longrightarrow>
   uploadFiles st env fs =
     st\<lparr>isUploading := False, uploadProgress := 100,
        upload_requests := upload_requests st @ [fs],
        files := set_status StatusSuccess (files st),
        upload_toasts := upload_toasts st @
          [\<lparr>toast_title = ''Demo Mode Active'',
            toast_description = ''Backend API not available. Using demo mode for testing.'',
            toast_variant = Some ''default''\<rparr>,
           \<lparr>toast_title = ''Upload successful'',
            toast_description = show_nat (length fs) @ '' documents uploaded successfully.'',
            toast_variant = None\<rparr>],
        upload_completions := upload_completions st @
          [(''demo_cluster_'' @ show_nat (env_now env), map file_name fs)]\<rparr>"
  by (simp add: uploadFiles_def Let_def)

text \<open>
  Claim C4, amended. When the upload fails by a network error or a non-success response,
  there are two outcomes. If the message of the failure contains none of
  "API_NOT_AVAILABLE", "Failed to fetch" and "NetworkError", every file of the list gets
  the status \<open>error\<close>, and the message of the failure is stored as the error and shown
  in an "Upload failed" toast; nothing is reported to the parent. If the message contains
  one of the three, the upload switches to its demo mode: every file of the list gets the
  status \<open>success\<close>, the stored error is not changed, a "Demo Mode Active" and an
  "Upload successful" toast are shown, and the parent receives a generated cluster
  identifier, \<^verbatim>\<open>demo_cluster_\<close> followed by the time, with the names of the files.
\<close>

theorem upload_failure_error_or_demo:
  "upload_failure (env_fetch env) = Some err \<Longrightarrow>
   (\<not> api_unavailable err \<longrightarrow>
      files (uploadFiles st env fs) = set_status StatusError (files st)
      \<and> list_all (\<lambda>d. doc_status d = StatusError) (files (uploadFiles st env fs))
      \<and> map doc_name (files (uploadFiles st env fs)) = map doc_name (files st)
      \<and> upload_error (uploadFiles st env fs) = Some (message_or ''Upload failed'' err)
      \<and> upload_toasts (uploadFiles st env fs) = upload_toasts st @
           [\<lparr>toast_title = ''Upload failed'', toast_description = message_or ''Upload failed'' err,
             toast_variant = Some ''destructive''\<rparr>]
      \<and> upload_completions (uploadFiles st env fs) = upload_completions st)
   \<and> (api_unavailable err \<longrightarrow>
      files (uploadFiles st env fs) = set_status StatusSuccess (files st)
      \<and> list_all (\<lambda>d. doc_status d = StatusSuccess) (files (uploadFiles st env fs))
      \<and> map doc_name (files (uploadFiles st env fs)) = map doc_name (files st)
      \<and> upload_error (uploadFiles st env fs) = upload_error st
      \<and> upload_toasts (uploadFiles st env fs) = upload_toasts st @
           [\<lparr>toast_title = ''Demo Mode Active'',
             toast_description = ''Backend API not available. Using demo mode for testing.'',
             toast_variant = Some ''default''\<rparr>,
            \<lparr>toast_title = ''Upload successful'',
             toast_description = show_nat (length fs) @ '' documents uploaded successfully.'',
             toast_variant = None\<rparr>]
      \<and> upload_completions (uploadFiles st env fs) = upload_completions st @
           [(''demo_cluster_'' @ show_nat (env_now env), map file_name fs)])"
  using uploadFiles_failure[OF upload_failure_request, of env err st fs]
    uploadFiles_demo[OF upload_failure_request, of env err st fs]
  by (simp add: set_status_def list_all_iff comp_def)

theorem upload_failure_error_or_demo_witness:
  "upload_failure (env_fetch \<lparr>env_fetch = Resolved \<lparr>resp_ok = False, resp_statusText = ''Bad Gateway'',
             resp_contentType = None, resp_text = Inr '''', resp_json = Inr None\<rparr>,
          env_now = 0, env_ticks = 2\<rparr>) = Some (Error ''Upload failed: Bad Gateway'')
   \<and> \<not> api_unavailable (Error ''Upload failed: Bad Gateway'')
   \<and> map doc_status (files (uploadFiles (initial_upload_view\<lparr>files :=
           [\<lparr>doc_name = ''a.pdf'', doc_size = 10, doc_status = StatusUploading\<rparr>,
            \<lparr>doc_name = ''b.pdf'', doc_size = 20, doc_status = StatusUploading\<rparr>]\<rparr>) \<lparr>env_fetch = Resolved \<lparr>resp_ok = False, resp_statusText = ''Bad Gateway'',
             resp_contentType = None, resp_text = Inr '''', resp_json = Inr None\<rparr>,
          env_now = 0, env_ticks = 2\<rparr> [\<lparr>file_name = ''a.pdf'', file_size = 10, file_type = ''application/pdf''\<rparr>,
         \<lparr>file_name = ''b.pdf'', file_size = 20, file_type = ''application/pdf''\<rparr>])) = [StatusError, StatusError]
   \<and> upload_error (uploadFiles (initial_upload_view\<lparr>files :=
           [\<lparr>doc_name = ''a.pdf'', doc_size = 10, doc_status = StatusUploading\<rparr>,
            \<lparr>doc_name = ''b.pdf'', doc_size = 20, doc_status = StatusUploading\<rparr>]\<rparr>) \<lparr>env_fetch = Resolved \<lparr>resp_ok = False, resp_statusText = ''Bad Gateway'',
             resp_contentType = None, resp_text = Inr '''', resp_json = Inr None\<rparr>,
          env_now = 0, env_ticks = 2\<rparr> [\<lparr>file_name = ''a.pdf'', file_size = 10, file_type = ''application/pdf''\<rparr>,
         \<lparr>file_name = ''b.pdf'', file_size = 20, file_type = ''application/pdf''\<rparr>]) = Some ''Upload failed: Bad Gateway''
   \<and> upload_completions (uploadFiles (initial_upload_view\<lparr>files :=
           [\<lparr>doc_name = ''a.pdf'', doc_size = 10, doc_status = StatusUploading\<rparr>,
            \<lparr>doc_name = ''b.pdf'', doc_size = 20, doc_status = StatusUploading\<rparr>]\<rparr>) \<lparr>env_fetch = Resolved \<lparr>resp_ok = False, resp_statusText = ''Bad Gateway'',
             resp_contentType = None, resp_text = Inr '''', resp_json = Inr None\<rparr>,
          env_now = 0, env_ticks = 2\<rparr> [\<lparr>file_name = ''a.pdf'', file_size = 10, file_type = ''application/pdf''\<rparr>,
         \<lparr>file_name = ''b.pdf'', file_size = 20, file_type = ''application/pdf''\<rparr>]) = []
   \<and> upload_failure (env_fetch \<lparr>env_fetch = Rejected (Error ''NetworkError when attempting to fetch resource.''),
          env_now = 0, env_ticks = 2\<rparr>)
       = Some (Error ''NetworkError when attempting to fetch resource.'')
   \<and> api_unavailable (Error ''NetworkError when attempting to fetch resource.'')
   \<and> map doc_status (files (uploadFiles (initial_upload_view\<lparr>files :=
           [\<lparr>doc_name = ''a.pdf'', doc_size = 10, doc_status = StatusUploading\<rparr>,
            \<lparr>doc_name = ''b.pdf'', doc_size = 20, doc_status = StatusUploading\<rparr>]\<rparr>) \<lparr>env_fetch = Rejected (Error ''NetworkError when attempting to fetch resource.''),
          env_now = 0, env_ticks = 2\<rparr> [\<lparr>file_name = ''a.pdf'', file_size = 10, file_type = ''application/pdf''\<rparr>,
         \<lparr>file_name = ''b.pdf'', file_size = 20, file_type = ''application/pdf''\<rparr>])) = [StatusSuccess, StatusSuccess]
   \<and> upload_error (uploadFiles (initial_upload_view\<lparr>files :=
           [\<lparr>doc_name = ''a.pdf'', doc_size = 10, doc_status = StatusUploading\<rparr>,
            \<lparr>doc_name = ''b.pdf'', doc_size = 20, doc_status = StatusUploading\<rparr>]\<rparr>) \<lparr>env_fetch = Rejected (Error ''NetworkError when attempting to fetch resource.''),
          env_now = 0, env_ticks = 2\<rparr> [\<lparr>file_name = ''a.pdf'', file_size = 10, file_type = ''application/pdf''\<rparr>,
         \<lparr>file_name = ''b.pdf'', file_size = 20, file_type = ''application/pdf''\<rparr>]) = None
   \<and> upload_completions (uploadFiles (initial_upload_view\<lparr>files :=
           [\<lparr>doc_name = ''a.pdf'', doc_size = 10, doc_status = StatusUploading\<rparr>,
            \<lparr>doc_name = ''b.pdf'', doc_size = 20, doc_status = StatusUploading\<rparr>]\<rparr>) \<lparr>env_fetch = Rejected (Error ''NetworkError when attempting to fetch resource.''),
          env_now = 0, env_ticks = 2\<rparr> [\<lparr>file_name = ''a.pdf'', file_size = 10, file_type = ''application/pdf''\<rparr>,
         \<lparr>file_name = ''b.pdf'', file_size = 20, file_type = ''application/pdf''\<rparr>]) = [(''demo_cluster_0'', [''a.pdf'', ''b.pdf''])]"
  using upload_failure_error_or_demo
    [of "\<lparr>env_fetch = Resolved \<lparr>resp_ok = False, resp_statusText = ''Bad Gateway'',
             resp_contentType = None, resp_text = Inr '''', resp_json = Inr None\<rparr>,
          env_now = 0, env_ticks = 2\<rparr>"
        "Error ''Upload failed: Bad Gateway''"
        "(initial_upload_view\<lparr>files :=
           [\<lparr>doc_name = ''a.pdf'', doc_size = 10, doc_status = StatusUploading\<rparr>,
            \<lparr>doc_name = ''b.pdf'', doc_size = 20, doc_status = StatusUploading\<rparr>]\<rparr>)"
        "[\<lparr>file_name = ''a.pdf'', file_size = 10, file_type = ''application/pdf''\<rparr>,
         \<lparr>file_name = ''b.pdf'', file_size = 20, file_type = ''application/pdf''\<rparr>]"]
    upload_failure_error_or_demo
    [of "\<lparr>env_fetch = Rejected (Error ''NetworkError when attempting to fetch resource.''),
          env_now = 0, env_ticks = 2\<rparr>"
        "Error ''NetworkError when attempting to fetch resource.''"
        "(initial_upload_view\<lparr>files :=
           [\<lparr>doc_name = ''a.pdf'', doc_size = 10, doc_status = StatusUploading\<rparr>,
            \<lparr>doc_name = ''b.pdf'', doc_size = 20, doc_status = StatusUploading\<rparr>]\<rparr>)"
        "[\<lparr>file_name = ''a.pdf'', file_size = 10, file_type = ''application/pdf''\<rparr>,
         \<lparr>file_name = ''b.pdf'', file_size = 20, file_type = ''application/pdf''\<rparr>]"]
  by (simp add: upload_failure_def api_unavailable_def message_or_def set_status_def
      initial_upload_view_def show_nat.simps[of 0] digit_char_def)

section \<open>Properties of the zoom\<close>

lemma zoomIn_range:
  "1/2 \<le> zoom st \<Longrightarrow> zoom st \<le> 3 \<Longrightarrow> 1/2 \<le> zoom (zoomIn st) \<and> zoom (zoomIn st) \<le> 3"
  by (simp add: zoomIn_def min_def)

lemma zoomOut_range:
  "1/2 \<le> zoom st \<Longrightarrow> zoom st \<le> 3 \<Longrightarrow> 1/2 \<le> zoom (zoomOut st) \<and> zoom (zoomOut st) \<le> 3"
  by (simp add: zoomOut_def max_def)

lemma press_range:
  "1/2 \<le> zoom st \<Longrightarrow> zoom st \<le> 3 \<Longrightarrow> 1/2 \<le> zoom (press b st) \<and> zoom (press b st) \<le> 3"
  using zoomIn_range[of st] zoomOut_range[of st] by (cases b) auto

lemma presses_range:
  "1/2 \<le> zoom st \<Longrightarrow> zoom st \<le> 3 \<Longrightarrow>
   1/2 \<le> zoom (fold press bs st) \<and> zoom (fold press bs st) \<le> 3"
proof (induction bs arbitrary: st)
  case Nil
  then show ?case by simp
next
  case (Cons b bs)
  have "1/2 \<le> zoom (press b st) \<and> zoom (press b st) \<le> 3"
    using press_range Cons.prems by blast
  then show ?case using Cons.IH[of "press b st"] by simp
qed

lemma five_zoomIn: "zoom st = 1 \<Longrightarrow> zoom ((zoomIn ^^ 5) st) = min (1 * 1.2 ^ 5) 3"
  by (simp add: zoomIn_def numeral_eq_Suc min_def)

text \<open>
  Claim C6. \<^verbatim>\<open>zoomIn\<close> multiplies the zoom factor by 1.2 and caps it at 3, \<^verbatim>\<open>zoomOut\<close>
  divides it by 1.2 and keeps it at 0.5 or more; from a factor in [0.5, 3] (the initial
  factor is 1) any sequence of presses on the two buttons leaves it in [0.5, 3]; and five
  \<^verbatim>\<open>zoomIn\<close> from 1 give min (1 * 1.2^5, 3).
\<close>

theorem zoom_steps_and_range:
  "zoom (zoomIn st) = min (zoom st * 1.2) 3
   \<and> zoom (zoomOut st) = max (zoom st / 1.2) 0.5
   \<and> (0.5 \<le> zoom st \<and> zoom st \<le> 3 \<longrightarrow>
        0.5 \<le> zoom (fold press bs st) \<and> zoom (fold press bs st) \<le> 3)
   \<and> (zoom st = 1 \<longrightarrow> zoom ((zoomIn ^^ 5) st) = min (1 * 1.2 ^ 5) 3)"
  using presses_range[of st bs] five_zoomIn[of st]
  by (simp add: zoomIn_def zoomOut_def)

theorem zoom_steps_and_range_witness:
  "0.5 \<le> zoom initial_graph_view \<and> zoom initial_graph_view \<le> 3
   \<and> zoom initial_graph_view = 1
   \<and> 0.5 \<le> zoom (fold press [ZoomInButton, ZoomInButton, ZoomOutButton] initial_graph_view)
   \<and> zoom (fold press [ZoomInButton, ZoomInButton, ZoomOutButton] initial_graph_view) \<le> 3
   \<and> zoom ((zoomIn ^^ 5) initial_graph_view) = min (1 * 1.2 ^ 5) 3"
  using zoom_steps_and_range
    [of initial_graph_view "[ZoomInButton, ZoomInButton, ZoomOutButton]"]
  by (simp add: initial_graph_view_def)

section \<open>Properties of the selection listener\<close>

lemma trim_Nil: "trim [] = []"
  by (simp add: trim_def)

lemma trim_hd:
  assumes "trim t \<noteq> []"
  shows "\<not> is_space (hd (trim t))"
proof -
  define u where "u = dropWhile is_space t"
  define w where "w = dropWhile is_space (rev u)"
  have tw: "trim t = rev w" by (simp add: trim_def u_def w_def)
  then have w: "rev w \<noteq> []" using assms by simp
  then have u: "u \<noteq> []" by (auto simp: w_def)
  have "rev u = takeWhile is_space (rev u) @ w" by (simp add: w_def)
  then have "u = rev w @ rev (takeWhile is_space (rev u))"
    by (metis rev_append rev_rev_ident)
  then have "hd u = hd (rev w)" using w by (metis hd_append2)
  moreover have "\<not> is_space (hd u)" using u unfolding u_def by (rule hd_dropWhile)
  ultimately show ?thesis using tw by simp
qed

lemma trim_last:
  assumes "trim t \<noteq> []"
  shows "\<not> is_space (last (trim t))"
proof -
  define w where "w = dropWhile is_space (rev (dropWhile is_space t))"
  have tw: "trim t = rev w" by (simp add: trim_def w_def)
  then have w: "w \<noteq> []" using assms by simp
  then have "\<not> is_space (hd w)" unfolding w_def by (rule hd_dropWhile)
  then show ?thesis using tw w by (simp add: last_rev)
qed

lemma trim_spaces: "\<forall>c\<in>set t. is_space c \<Longrightarrow> trim t = []"
  by (auto simp add: trim_def dest: set_dropWhileD)

text \<open>
  Claim C7. The listener registered with the viewer calls \<^verbatim>\<open>onTextSelection\<close> exactly
  when the event has the type \<^verbatim>\<open>SELECTION_END\<close> and a text that is not empty once
  trimmed, and then with the trimmed text and the document name; any other event makes no
  call (and there is no error branch). The trimmed text neither starts nor ends with white
  space, and a text of white space only (of Unicode, not only of ASCII) is ignored. The
  demo fallback that the component shows in place of the embedded viewer has two buttons
  passing fixed sample texts; they are not events of the viewer and not part of the
  listener.
\<close>

theorem selection_callback_exactly:
  "(selection_listener documentName event = Some call \<longleftrightarrow>
      event_type event = ''SELECTION_END''
      \<and> (\<exists>t. event_text event = Some t \<and> trim t \<noteq> [] \<and> call = (trim t, documentName)))
   \<and> (selection_listener documentName event = None \<longleftrightarrow>
      event_type event \<noteq> ''SELECTION_END''
      \<or> (\<forall>t. event_text event = Some t \<longrightarrow> trim t = []))
   \<and> (\<forall>t. trim t \<noteq> [] \<longrightarrow> \<not> is_space (hd (trim t)) \<and> \<not> is_space (last (trim t)))
   \<and> (\<forall>t. (\<forall>c\<in>set t. is_space c) \<longrightarrow> trim t = [])"
  using trim_hd trim_last trim_spaces
  by (auto simp add: selection_listener_def or_text_def trim_Nil Let_def split: option.splits)

theorem selection_callback_exactly_witness:
  "selection_listener ''report.pdf''
      \<lparr>event_type = ''SELECTION_END'', event_text = Some (utf16 '' net income  '')\<rparr>
     = Some (utf16 ''net income'', ''report.pdf'')
   \<and> selection_listener ''report.pdf''
      \<lparr>event_type = ''SELECTION_END'', event_text = Some ([0x00A0] @ utf16 ''abc'' @ [0x3000, 0x000A])\<rparr>
     = Some (utf16 ''abc'', ''report.pdf'')
   \<and> selection_listener ''report.pdf''
      \<lparr>event_type = ''SELECTION_END'', event_text = Some [0x00A0]\<rparr> = None
   \<and> selection_listener ''report.pdf''
      \<lparr>event_type = ''SELECTION_END'', event_text = Some (utf16 ''   '')\<rparr> = None
   \<and> selection_listener ''report.pdf''
      \<lparr>event_type = ''PREVIEW_KEY_DOWN'', event_text = Some (utf16 ''abc'')\<rparr> = None
   \<and> \<not> is_space (hd (trim (utf16 '' net income  '')))"
  using selection_callback_exactly[of "''report.pdf''"
      "\<lparr>event_type = ''SELECTION_END'', event_text = Some (utf16 '' net income  '')\<rparr>"
      "(utf16 ''net income'', ''report.pdf'')"]
  by (simp add: selection_listener_def or_text_def trim_def is_space_def utf16_def)

section \<open>Properties of the graph fetch\<close>

text \<open>
  Claim C8. When the graph fetch fails (rejected request, non-success response, a body
  that does not parse) or the data lacks the \<open>nodes\<close> or the \<open>links\<close> array,
  \<^verbatim>\<open>fetchGraphData\<close> stores the message of the failure as the graph error, shows it in
  a "Failed to load knowledge graph" toast, and changes nothing else than the loading
  flag: the graph data loaded before is the same.
\<close>

theorem graph_fetch_failure_keeps_graph:
  "graph_fetch_fails res \<Longrightarrow>
   \<exists>err. fetch_graph_try res g = Inl err
     \<and> fetchGraphData st res g =
         st\<lparr>isLoading := False,
            graph_error := Some (message_or ''Failed to load knowledge graph'' err),
            graph_toasts := graph_toasts st @
              [\<lparr>toast_title = ''Failed to load knowledge graph'',
                toast_description = message_or ''Failed to load knowledge graph'' err,
                toast_variant = Some ''destructive''\<rparr>]\<rparr>
     \<and> graphData (fetchGraphData st res g) = graphData st
     \<and> graph_error (fetchGraphData st res g) \<noteq> None"
  by (auto simp add: graph_fetch_fails_def fetch_graph_try_def fetchGraphData_def Let_def
      split: fetch_result.splits sum.splits option.splits)

theorem graph_fetch_failure_keeps_graph_witness:
  "graph_fetch_fails
     (Resolved \<lparr>resp_ok = True, resp_statusText = ''OK'',
                resp_contentType = Some ''application/json'', resp_text = Inr '''',
                resp_json = Inr \<lparr>json_nodes = Some [], json_links = None\<rparr>\<rparr>)
   \<and> graphData (fetchGraphData
        (initial_graph_view\<lparr>graphData := Some \<lparr>nodes = [], links = []\<rparr>\<rparr>)
        (Resolved \<lparr>resp_ok = True, resp_statusText = ''OK'',
                   resp_contentType = Some ''application/json'', resp_text = Inr '''',
                   resp_json = Inr \<lparr>json_nodes = Some [], json_links = None\<rparr>\<rparr>)
        (\<lambda>k. 1 / 2, 0)) = Some \<lparr>nodes = [], links = []\<rparr>
   \<and> graph_error (fetchGraphData
        (initial_graph_view\<lparr>graphData := Some \<lparr>nodes = [], links = []\<rparr>\<rparr>)
        (Resolved \<lparr>resp_ok = True, resp_statusText = ''OK'',
                   resp_contentType = Some ''application/json'', resp_text = Inr '''',
                   resp_json = Inr \<lparr>json_nodes = Some [], json_links = None\<rparr>\<rparr>)
        (\<lambda>k. 1 / 2, 0)) \<noteq> None"
  using graph_fetch_failure_keeps_graph
    [of "Resolved \<lparr>resp_ok = True, resp_statusText = ''OK'',
                   resp_contentType = Some ''application/json'', resp_text = Inr '''',
                   resp_json = Inr \<lparr>json_nodes = Some [], json_links = None\<rparr>\<rparr>"
        "(\<lambda>k. 1 / 2, 0)"
        "initial_graph_view\<lparr>graphData := Some \<lparr>nodes = [], links = []\<rparr>\<rparr>"]
  by (auto simp add: graph_fetch_fails_def initial_graph_view_def)

section \<open>Properties of the normalisation of a fetched graph\<close>

lemma or_str_nonempty: "d \<noteq> [] \<Longrightarrow> or_str v d \<noteq> []"
  by (simp add: or_str_def split: option.splits)

lemma process_node_rng: "fst (snd (process_node index node g)) = fst g"
  by (simp add: process_node_def random_def Let_def)

lemma process_node_normalized:
  assumes "\<forall>k. 0 \<le> fst g k \<and> fst g k < 1"
  shows "normalized_node (fst (process_node index node g))"
proof -
  have a: "0 \<le> fst g k * 400" "fst g k * 400 < 400" "0 \<le> fst g k * 300" "fst g k * 300 < 300"
    for k
    using assms[rule_format, of k] by auto
  show ?thesis
    using a by (simp add: process_node_def random_def Let_def normalized_node_def or_str_nonempty)
qed

lemma process_nodes_normalized:
  "\<forall>k. 0 \<le> fst g k \<and> fst g k < 1 \<Longrightarrow>
   length (process_nodes index raws g) = length raws
   \<and> list_all normalized_node (process_nodes index raws g)"
proof (induction raws arbitrary: index g)
  case Nil
  then show ?case by simp
next
  case (Cons node rest)
  obtain n g' where p: "process_node index node g = (n, g')" by (metis surj_pair)
  have "fst g' = fst g" using process_node_rng[of index node g] p by simp
  then have "\<forall>k. 0 \<le> fst g' k \<and> fst g' k < 1" using Cons.prems by simp
  then have "length (process_nodes (Suc index) rest g') = length rest
      \<and> list_all normalized_node (process_nodes (Suc index) rest g')"
    by (rule Cons.IH)
  moreover have "normalized_node n"
    using process_node_normalized[OF Cons.prems, of index node] p by simp
  ultimately show ?case using p by simp
qed

lemma process_link_normalized: "normalized_link raw (process_link raw)"
  by (simp add: normalized_link_def process_link_def or_num_def or_str_def split: option.splits)

text \<open>
  Claim C10, as stated, fails: the initial y is \<^verbatim>\<open>Math.random() * 300 + 100\<close>, which
  exceeds the upper clamp bound 380 when the random number is above 14/15. With 0.95 the
  node fetched starts at y = 385, outside the clamp region.
\<close>

theorem initial_position_outside_clamp_counterexample:
  "map node_y (nodes (the (graphData (fetchGraphData initial_graph_view
      (Resolved \<lparr>resp_ok = True, resp_statusText = ''OK'',
         resp_contentType = Some ''application/json'', resp_text = Inr '''',
         resp_json = Inr \<lparr>json_nodes = Some [\<lparr>raw_id = Some ''a'', raw_label = Some ''A'',
                                               raw_name = None, raw_size = Some 12,
                                               raw_color = Some ''#fff''\<rparr>],
                           json_links = Some []\<rparr>\<rparr>)
      (\<lambda>k. 19 / 20, 0))))) = [Some 385]
   \<and> \<not> list_all in_bounds (nodes (the (graphData (fetchGraphData initial_graph_view
      (Resolved \<lparr>resp_ok = True, resp_statusText = ''OK'',
         resp_contentType = Some ''application/json'', resp_text = Inr '''',
         resp_json = Inr \<lparr>json_nodes = Some [\<lparr>raw_id = Some ''a'', raw_label = Some ''A'',
                                               raw_name = None, raw_size = Some 12,
                                               raw_color = Some ''#fff''\<rparr>],
                           json_links = Some []\<rparr>\<rparr>)
      (\<lambda>k. 19 / 20, 0)))))"
  by (simp add: fetchGraphData_def fetch_graph_try_def process_node_def random_def
      or_num_def or_str_def in_bounds_def initial_graph_view_def Let_def)

text \<open>
  Claim C10, amended. After a successful graph fetch (\<^verbatim>\<open>Math.random\<close> giving numbers in
  [0, 1)), the graph stored has one node for each node received, every node with a
  non-empty id and label, a size, a colour, velocity (0, 0) and an initial position with
  x in [100, 500) and y in [100, 400); every link has the endpoints received, a weight
  (1 when missing or 0) and a label (the empty string when missing). The initial position
  is inside the 600 by 400 canvas, not always inside the clamp region: y may exceed 380
  until the first tick.
\<close>

theorem fetched_graph_is_normalized:
  assumes "\<forall>k. 0 \<le> fst g k \<and> fst g k < 1"
    and "res = Resolved response" and "resp_ok response"
    and "resp_json response = Inr data"
    and "json_nodes data = Some ns" and "json_links data = Some ls"
  shows "\<exists>d. graphData (fetchGraphData st res g) = Some d
            \<and> graph_error (fetchGraphData st res g) = None
            \<and> length (nodes d) = length ns
            \<and> list_all normalized_node (nodes d)
            \<and> list_all2 normalized_link ls (links d)"
proof -
  have t: "fetch_graph_try res g = Inr \<lparr>nodes = process_nodes 0 ns g, links = map process_link ls\<rparr>"
    using assms(2-6) by (simp add: fetch_graph_try_def)
  have l: "list_all2 normalized_link ls (map process_link ls)"
    by (simp add: list_all2_conv_all_nth process_link_normalized)
  show ?thesis
    using t l process_nodes_normalized[OF assms(1), of 0 ns]
    by (simp add: fetchGraphData_def Let_def)
qed

theorem fetched_graph_is_normalized_witness:
  "(\<forall>k. 0 \<le> fst ((\<lambda>k. 1 / 2, 0) :: rng) k \<and> fst ((\<lambda>k. 1 / 2, 0) :: rng) k < 1)
   \<and> (\<exists>d. graphData (fetchGraphData initial_graph_view
        (Resolved \<lparr>resp_ok = True, resp_statusText = ''OK'',
           resp_contentType = Some ''application/json'', resp_text = Inr '''',
           resp_json = Inr \<lparr>json_nodes = Some [\<lparr>raw_id = Some ''a'', raw_label = None,
                                                 raw_name = None, raw_size = None,
                                                 raw_color = None\<rparr>],
                             json_links = Some [\<lparr>raw_source = EndId ''a'', raw_target = EndId ''z'',
                                                 raw_weight = None, raw_link_label = None\<rparr>]\<rparr>\<rparr>)
        (\<lambda>k. 1 / 2, 0)) = Some d
      \<and> length (nodes d) = 1 \<and> list_all normalized_node (nodes d)
      \<and> map link_weight (links d) = [Some 1] \<and> map link_label (links d) = [Some '''']) "
proof -
  have b: "\<forall>k. 0 \<le> fst ((\<lambda>k. 1 / 2, 0) :: rng) k \<and> fst ((\<lambda>k. 1 / 2, 0) :: rng) k < 1"
    by simp
  show ?thesis
    using fetched_graph_is_normalized[OF b refl, of
        "\<lparr>resp_ok = True, resp_statusText = ''OK'',
           resp_contentType = Some ''application/json'', resp_text = Inr '''',
           resp_json = Inr \<lparr>json_nodes = Some [\<lparr>raw_id = Some ''a'', raw_label = None,
                                                 raw_name = None, raw_size = None,
                                                 raw_color = None\<rparr>],
                             json_links = Some [\<lparr>raw_source = EndId ''a'', raw_target = EndId ''z'',
                                                 raw_weight = None, raw_link_label = None\<rparr>]\<rparr>\<rparr>"
        "\<lparr>json_nodes = Some [\<lparr>raw_id = Some ''a'', raw_label = None,
                                                 raw_name = None, raw_size = None,
                                                 raw_color = None\<rparr>],
                             json_links = Some [\<lparr>raw_source = EndId ''a'', raw_target = EndId ''z'',
                                                 raw_weight = None, raw_link_label = None\<rparr>]\<rparr>"
        "[\<lparr>raw_id = Some ''a'', raw_label = None, raw_name = None, raw_size = None,
           raw_color = None\<rparr>]"
        "[\<lparr>raw_source = EndId ''a'', raw_target = EndId ''z'',
           raw_weight = None, raw_link_label = None\<rparr>]"
        initial_graph_view]
    by (auto simp add: normalized_link_def list_all2_Cons1)
qed

section \<open>The tick computes the sum of the forces\<close>

subsection \<open>What the force steps read and what they leave unchanged\<close>

lemma or0_simps [simp]: "or0 None = 0" "or0 (Some r) = r"
  by (simp_all add: or0_def)

lemma at_rest_fields:
  assumes "at_rest a = at_rest b"
  shows "node_id a = node_id b" and "node_x a = node_x b" and "node_y a = node_y b"
proof -
  have "node_id (at_rest a) = node_id (at_rest b)" "node_x (at_rest a) = node_x (at_rest b)"
    "node_y (at_rest a) = node_y (at_rest b)"
    using assms by simp_all
  then show "node_id a = node_id b" and "node_x a = node_x b" and "node_y a = node_y b"
    by (simp_all add: at_rest_def)
qed

lemma rest_nth:
  "map at_rest ms = map at_rest ns \<Longrightarrow> k < length ms \<Longrightarrow> at_rest (ms ! k) = at_rest (ns ! k)"
  by (metis length_map nth_map)

lemma rest_length: "map at_rest ms = map at_rest ns \<Longrightarrow> length ms = length ns"
  by (metis length_map)

lemma rest_update:
  assumes "map at_rest ms = map at_rest ns" and "i < length ms" and "at_rest n' = at_rest (ns ! i)"
  shows "map at_rest (ms[i := n']) = map at_rest ns"
proof -
  have "map at_rest (ms[i := n']) = (map at_rest ns)[i := at_rest (ns ! i)]"
    using assms by (simp add: map_update)
  also have "\<dots> = (map at_rest ns)[i := map at_rest ns ! i]"
    using assms rest_length[OF assms(1)] by simp
  finally show ?thesis by simp
qed

lemma separation_cong:
  assumes "at_rest a = at_rest a'" and "at_rest b = at_rest b'"
  shows "separation a b = separation a' b'"
  using at_rest_fields[OF assms(1)] at_rest_fields[OF assms(2)]
  by (simp add: separation_def)

lemma repulsion_cong:
  assumes "at_rest a = at_rest a'" and "at_rest b = at_rest b'"
  shows "repulsion_x guard a b = repulsion_x guard a' b'"
    and "repulsion_y guard a b = repulsion_y guard a' b'"
  using separation_cong[OF assms] at_rest_fields[OF assms(1)] at_rest_fields[OF assms(2)]
  by (simp_all add: repulsion_x_def repulsion_y_def)

lemma spring_cong:
  assumes "at_rest a = at_rest a'" and "at_rest b = at_rest b'"
  shows "spring_x a b = spring_x a' b'" and "spring_y a b = spring_y a' b'"
  using separation_cong[OF assms(2) assms(1)] at_rest_fields[OF assms(1)] at_rest_fields[OF assms(2)]
  by (simp_all add: spring_x_def spring_y_def)

lemma center_force_props:
  "at_rest (center_force n) = at_rest n"
  "or0 (node_vx (center_force n)) = or0 (node_vx n) + (300 - or0 (node_x n)) * 0.01"
  "or0 (node_vy (center_force n)) = or0 (node_vy n) + (200 - or0 (node_y n)) * 0.01"
  by (simp_all add: center_force_def at_rest_def Let_def)

lemma repel_props:
  "at_rest (repel n other) = at_rest n"
  "or0 (node_vx (repel n other)) = or0 (node_vx n) + repulsion_x or1 n other"
  "or0 (node_vy (repel n other)) = or0 (node_vy n) + repulsion_y or1 n other"
  by (simp_all add: repel_def repulsion_x_def repulsion_y_def separation_def at_rest_def Let_def)

subsection \<open>The two nested loops over the nodes\<close>

lemma repel_fold:
  assumes "map at_rest ms = map at_rest ns" and "i < length ms" and "\<forall>j\<in>set js. j < length ms"
  shows "\<exists>n'. foldl (\<lambda>ms j. ms[i := repel (ms ! i) (ms ! j)]) ms js = ms[i := n']
           \<and> at_rest n' = at_rest (ns ! i)
           \<and> or0 (node_vx n') = or0 (node_vx (ms ! i)) + (\<Sum>j\<leftarrow>js. repulsion_x or1 (ns ! i) (ns ! j))
           \<and> or0 (node_vy n') = or0 (node_vy (ms ! i)) + (\<Sum>j\<leftarrow>js. repulsion_y or1 (ns ! i) (ns ! j))"
  using assms
proof (induction js arbitrary: ms)
  case Nil
  then show ?case using rest_nth[of ms ns i] by (intro exI[of _ "ms ! i"]) simp
next
  case (Cons j js)
  let ?m1 = "ms[i := repel (ms ! i) (ms ! j)]"
  have j: "j < length ms" using Cons.prems(3) by simp
  have ri: "at_rest (ms ! i) = at_rest (ns ! i)" using rest_nth Cons.prems(1,2) by blast
  have rj: "at_rest (ms ! j) = at_rest (ns ! j)" using rest_nth Cons.prems(1) j by blast
  have m1: "map at_rest ?m1 = map at_rest ns"
    using rest_update[OF Cons.prems(1,2)] ri by (simp add: repel_props)
  obtain n' where n': "foldl (\<lambda>ms j. ms[i := repel (ms ! i) (ms ! j)]) ?m1 js = ?m1[i := n']"
    "at_rest n' = at_rest (ns ! i)"
    "or0 (node_vx n') = or0 (node_vx (?m1 ! i)) + (\<Sum>j\<leftarrow>js. repulsion_x or1 (ns ! i) (ns ! j))"
    "or0 (node_vy n') = or0 (node_vy (?m1 ! i)) + (\<Sum>j\<leftarrow>js. repulsion_y or1 (ns ! i) (ns ! j))"
    using Cons.IH[OF m1] Cons.prems(2,3) by auto
  have "or0 (node_vx (?m1 ! i)) = or0 (node_vx (ms ! i)) + repulsion_x or1 (ns ! i) (ns ! j)"
    and "or0 (node_vy (?m1 ! i)) = or0 (node_vy (ms ! i)) + repulsion_y or1 (ns ! i) (ns ! j)"
    using Cons.prems(2) repulsion_cong[OF ri rj] by (simp_all add: repel_props)
  then show ?case using n' by (intro exI[of _ n']) simp
qed

lemma sum_over_indices: "(\<Sum>j\<leftarrow>[0..<length ns]. f (ns ! j)) = (\<Sum>other\<leftarrow>ns. f other)"
proof -
  have "map (\<lambda>j. f (ns ! j)) [0..<length ns] = map f (map ((!) ns) [0..<length ns])"
    by simp
  then show ?thesis by (simp only: map_nth)
qed

lemma force_step:
  assumes "map at_rest ms = map at_rest ns" and "i < length ms"
  shows "\<exists>n'. repel_all i (ms[i := center_force (ms ! i)]) = ms[i := n']
           \<and> at_rest n' = at_rest (ns ! i)
           \<and> or0 (node_vx n') = or0 (node_vx (ms ! i)) + (300 - or0 (node_x (ns ! i))) * 0.01
                + (\<Sum>other\<leftarrow>ns. repulsion_x or1 (ns ! i) other)
           \<and> or0 (node_vy n') = or0 (node_vy (ms ! i)) + (200 - or0 (node_y (ns ! i))) * 0.01
                + (\<Sum>other\<leftarrow>ns. repulsion_y or1 (ns ! i) other)"
proof -
  let ?m1 = "ms[i := center_force (ms ! i)]"
  have ri: "at_rest (ms ! i) = at_rest (ns ! i)" using rest_nth assms by blast
  have len: "length ms = length ns" using rest_length assms(1) by blast
  have m1: "map at_rest ?m1 = map at_rest ns"
    using rest_update[OF assms] ri by (simp add: center_force_props)
  have "\<forall>j\<in>set [0..<length ?m1]. j < length ?m1" by simp
  then obtain n' where n': "repel_all i ?m1 = ?m1[i := n']"
    "at_rest n' = at_rest (ns ! i)"
    "or0 (node_vx n') = or0 (node_vx (?m1 ! i))
        + (\<Sum>j\<leftarrow>[0..<length ?m1]. repulsion_x or1 (ns ! i) (ns ! j))"
    "or0 (node_vy n') = or0 (node_vy (?m1 ! i))
        + (\<Sum>j\<leftarrow>[0..<length ?m1]. repulsion_y or1 (ns ! i) (ns ! j))"
    using repel_fold[OF m1, of i "[0..<length ?m1]"] assms(2) unfolding repel_all_def by auto
  have x: "node_x (ms ! i) = node_x (ns ! i)" "node_y (ms ! i) = node_y (ns ! i)"
    using at_rest_fields[OF ri] by simp_all
  show ?thesis
    using n' assms(2) x len sum_over_indices[of "repulsion_x or1 (ns ! i)" ns]
      sum_over_indices[of "repulsion_y or1 (ns ! i)" ns]
    by (intro exI[of _ n']) (simp add: center_force_props)
qed

lemma forces_fold:
  assumes "map at_rest ms = map at_rest ns" and "distinct is" and "\<forall>i\<in>set is. i < length ms"
  shows "map at_rest (foldl (\<lambda>ms i. repel_all i (ms[i := center_force (ms ! i)])) ms is)
           = map at_rest ns
       \<and> (\<forall>k<length ms.
            (k \<in> set is \<longrightarrow>
               or0 (node_vx (foldl (\<lambda>ms i. repel_all i (ms[i := center_force (ms ! i)])) ms is ! k))
                 = or0 (node_vx (ms ! k)) + (300 - or0 (node_x (ns ! k))) * 0.01
                   + (\<Sum>other\<leftarrow>ns. repulsion_x or1 (ns ! k) other)
             \<and> or0 (node_vy (foldl (\<lambda>ms i. repel_all i (ms[i := center_force (ms ! i)])) ms is ! k))
                 = or0 (node_vy (ms ! k)) + (200 - or0 (node_y (ns ! k))) * 0.01
                   + (\<Sum>other\<leftarrow>ns. repulsion_y or1 (ns ! k) other))
          \<and> (k \<notin> set is \<longrightarrow>
               foldl (\<lambda>ms i. repel_all i (ms[i := center_force (ms ! i)])) ms is ! k = ms ! k))"
  using assms
proof (induction "is" arbitrary: ms)
  case Nil
  then show ?case by simp
next
  case (Cons i "is")
  have i: "i < length ms" using Cons.prems(3) by simp
  obtain n' where n': "repel_all i (ms[i := center_force (ms ! i)]) = ms[i := n']"
    "at_rest n' = at_rest (ns ! i)"
    "or0 (node_vx n') = or0 (node_vx (ms ! i)) + (300 - or0 (node_x (ns ! i))) * 0.01
        + (\<Sum>other\<leftarrow>ns. repulsion_x or1 (ns ! i) other)"
    "or0 (node_vy n') = or0 (node_vy (ms ! i)) + (200 - or0 (node_y (ns ! i))) * 0.01
        + (\<Sum>other\<leftarrow>ns. repulsion_y or1 (ns ! i) other)"
    using force_step[OF Cons.prems(1) i] by auto
  let ?m1 = "ms[i := n']"
  have m1: "map at_rest ?m1 = map at_rest ns"
    using rest_update[OF Cons.prems(1) i n'(2)] .
  have d: "distinct is" "i \<notin> set is" using Cons.prems(2) by simp_all
  have b: "\<forall>i\<in>set is. i < length ?m1" using Cons.prems(3) by simp
  note IH = Cons.IH[OF m1 d(1) b]
  show ?case
    using IH n' d(2) i by (auto simp add: nth_list_update)
qed

lemma apply_forces_props:
  assumes "k < length ns"
  shows "map at_rest (apply_forces ns) = map at_rest ns"
    and "or0 (node_vx (apply_forces ns ! k))
           = or0 (node_vx (ns ! k)) + (300 - or0 (node_x (ns ! k))) * 0.01
             + (\<Sum>other\<leftarrow>ns. repulsion_x or1 (ns ! k) other)"
    and "or0 (node_vy (apply_forces ns ! k))
           = or0 (node_vy (ns ! k)) + (200 - or0 (node_y (ns ! k))) * 0.01
             + (\<Sum>other\<leftarrow>ns. repulsion_y or1 (ns ! k) other)"
  using forces_fold[of ns ns "[0..<length ns]"] assms
  unfolding apply_forces_def by simp_all

lemma apply_forces_rest: "map at_rest (apply_forces ns) = map at_rest ns"
  using forces_fold[of ns ns "[0..<length ns]"] unfolding apply_forces_def by simp

subsection \<open>The loop over the links\<close>

lemma id_matches_cong: "node_id a = node_id b \<Longrightarrow> id_matches e a = id_matches e b"
  by (cases e) simp_all

lemma find_index_from_cong:
  "map node_id ms = map node_id ns \<Longrightarrow> find_index_from k e ms = find_index_from k e ns"
proof (induction ms arbitrary: ns k)
  case Nil
  then show ?case by simp
next
  case (Cons m ms)
  then obtain n ns' where ns: "ns = n # ns'" by (cases ns) auto
  then have "node_id m = node_id n" and "map node_id ms = map node_id ns'"
    using Cons.prems by simp_all
  then show ?case
    using Cons.IH[of ns' "Suc k"] id_matches_cong[of m n e] ns by simp
qed

lemma rest_ids: "map at_rest ms = map at_rest ns \<Longrightarrow> map node_id ms = map node_id ns"
proof -
  assume a: "map at_rest ms = map at_rest ns"
  have "map node_id xs = map node_id (map at_rest xs)" for xs
    by (simp add: at_rest_def comp_def)
  then show ?thesis using a by metis
qed

lemma find_node_cong: "map at_rest ms = map at_rest ns \<Longrightarrow> find_node ms e = find_node ns e"
  unfolding find_node_def by (rule find_index_from_cong) (rule rest_ids)

lemma find_index_from_bound:
  "find_index_from k e ns = Some s \<Longrightarrow> k \<le> s \<and> s < k + length ns"
proof (induction ns arbitrary: k)
  case Nil
  then show ?case by simp
next
  case (Cons n ns)
  then show ?case
  proof (cases "id_matches e n")
    case True
    then show ?thesis using Cons.prems by simp
  next
    case False
    then have "find_index_from (Suc k) e ns = Some s" using Cons.prems by simp
    then show ?thesis using Cons.IH[of "Suc k"] by simp
  qed
qed

lemma find_node_bound: "find_node ns e = Some s \<Longrightarrow> s < length ns"
  unfolding find_node_def using find_index_from_bound[of 0 e ns s] by simp

lemma link_force_unresolved:
  "find_node ns (link_source l) = None \<or> find_node ns (link_target l) = None \<Longrightarrow>
   link_force ns l = ns"
  by (auto simp add: link_force_def split: option.splits)

lemma link_pull_unresolved:
  "find_node ns (link_source l) = None \<or> find_node ns (link_target l) = None \<Longrightarrow>
   link_pull_x ns k l = 0 \<and> link_pull_y ns k l = 0"
  by (auto simp add: link_pull_x_def link_pull_y_def split: option.splits)

lemma link_force_resolved:
  assumes "find_node ms (link_source l) = Some s" and "find_node ms (link_target l) = Some t"
  shows "link_force ms l =
     (let fx = spring_x (ms ! s) (ms ! t); fy = spring_y (ms ! s) (ms ! t);
          ns1 = ms[s := (ms ! s)\<lparr>node_vx := Some (or0 (node_vx (ms ! s)) + fx)\<rparr>];
          ns2 = ns1[s := (ns1 ! s)\<lparr>node_vy := Some (or0 (node_vy (ns1 ! s)) + fy)\<rparr>];
          ns3 = ns2[t := (ns2 ! t)\<lparr>node_vx := Some (or0 (node_vx (ns2 ! t)) - fx)\<rparr>]
      in ns3[t := (ns3 ! t)\<lparr>node_vy := Some (or0 (node_vy (ns3 ! t)) - fy)\<rparr>])"
  by (simp only: link_force_def spring_x_def spring_y_def separation_def Let_def assms
      prod.case option.case)

lemma link_force_props:
  assumes "map at_rest ms = map at_rest ns"
  shows "map at_rest (link_force ms l) = map at_rest ns"
    and "k < length ms \<Longrightarrow>
         or0 (node_vx (link_force ms l ! k)) = or0 (node_vx (ms ! k)) + link_pull_x ns k l"
    and "k < length ms \<Longrightarrow>
         or0 (node_vy (link_force ms l ! k)) = or0 (node_vy (ms ! k)) + link_pull_y ns k l"
proof -
  have fs: "find_node ms (link_source l) = find_node ns (link_source l)"
    and ft: "find_node ms (link_target l) = find_node ns (link_target l)"
    using find_node_cong[OF assms] by simp_all
  show "map at_rest (link_force ms l) = map at_rest ns"
  proof (cases "find_node ms (link_source l) = None \<or> find_node ms (link_target l) = None")
    case True
    then show ?thesis using link_force_unresolved assms by simp
  next
    case False
    then obtain s t where st: "find_node ms (link_source l) = Some s"
      "find_node ms (link_target l) = Some t" by auto
    have b: "s < length ms" "t < length ms" using st find_node_bound by blast+
    have "at_rest (link_force ms l ! i) = at_rest (ms ! i)" if "i < length ms" for i
      unfolding link_force_resolved[OF st] using b that
      by (simp add: Let_def nth_list_update at_rest_def)
    then have "map at_rest (link_force ms l) = map at_rest ms"
      by (intro nth_equalityI) (simp_all add: length_link_force)
    then show ?thesis using assms by simp
  qed
  show "or0 (node_vx (link_force ms l ! k)) = or0 (node_vx (ms ! k)) + link_pull_x ns k l"
    if k: "k < length ms"
  proof (cases "find_node ms (link_source l) = None \<or> find_node ms (link_target l) = None")
    case True
    then show ?thesis using link_force_unresolved[OF True] link_pull_unresolved[of ns l k] fs ft
      by simp
  next
    case False
    then obtain s t where st: "find_node ms (link_source l) = Some s"
      "find_node ms (link_target l) = Some t" by auto
    have b: "s < length ms" "t < length ms" using st find_node_bound by blast+
    have sp: "spring_x (ms ! s) (ms ! t) = spring_x (ns ! s) (ns ! t)"
      using spring_cong(1)[OF rest_nth[OF assms b(1)] rest_nth[OF assms b(2)]] .
    show ?thesis
      unfolding link_force_resolved[OF st] link_pull_x_def
      using st fs ft b k sp by (simp add: Let_def nth_list_update)
  qed
  show "or0 (node_vy (link_force ms l ! k)) = or0 (node_vy (ms ! k)) + link_pull_y ns k l"
    if k: "k < length ms"
  proof (cases "find_node ms (link_source l) = None \<or> find_node ms (link_target l) = None")
    case True
    then show ?thesis using link_force_unresolved[OF True] link_pull_unresolved[of ns l k] fs ft
      by simp
  next
    case False
    then obtain s t where st: "find_node ms (link_source l) = Some s"
      "find_node ms (link_target l) = Some t" by auto
    have b: "s < length ms" "t < length ms" using st find_node_bound by blast+
    have sp: "spring_y (ms ! s) (ms ! t) = spring_y (ns ! s) (ns ! t)"
      using spring_cong(2)[OF rest_nth[OF assms b(1)] rest_nth[OF assms b(2)]] .
    show ?thesis
      unfolding link_force_resolved[OF st] link_pull_y_def
      using st fs ft b k sp by (simp add: Let_def nth_list_update)
  qed
qed

lemma apply_links_props:
  assumes "map at_rest ms = map at_rest ns"
  shows "map at_rest (apply_links ms ls) = map at_rest ns
       \<and> (\<forall>k<length ms.
             or0 (node_vx (apply_links ms ls ! k))
               = or0 (node_vx (ms ! k)) + (\<Sum>l\<leftarrow>ls. link_pull_x ns k l)
           \<and> or0 (node_vy (apply_links ms ls ! k))
               = or0 (node_vy (ms ! k)) + (\<Sum>l\<leftarrow>ls. link_pull_y ns k l))"
  using assms
proof (induction ls arbitrary: ms)
  case Nil
  then show ?case by (simp add: apply_links_def)
next
  case (Cons l ls)
  have r: "map at_rest (link_force ms l) = map at_rest ns"
    using link_force_props(1)[OF Cons.prems] .
  have "apply_links ms (l # ls) = apply_links (link_force ms l) ls"
    by (simp add: apply_links_def)
  then show ?case
    using Cons.IH[OF r] link_force_props(2,3)[OF Cons.prems, of _ l]
    by (simp add: length_link_force)
qed

subsection \<open>The whole tick\<close>

lemma integrate_eq:
  assumes "at_rest m = at_rest n"
  shows "integrate m =
     n\<lparr>node_x := Some (max 20 (min 580 (or0 (node_x n) + or0 (node_vx m) * 0.9))),
       node_y := Some (max 20 (min 380 (or0 (node_y n) + or0 (node_vy m) * 0.9))),
       node_vx := Some (or0 (node_vx m) * 0.9),
       node_vy := Some (or0 (node_vy m) * 0.9)\<rparr>"
proof -
  have "integrate m =
     (at_rest m)\<lparr>node_x := Some (max 20 (min 580 (or0 (node_x m) + or0 (node_vx m) * 0.9))),
       node_y := Some (max 20 (min 380 (or0 (node_y m) + or0 (node_vy m) * 0.9))),
       node_vx := Some (or0 (node_vx m) * 0.9),
       node_vy := Some (or0 (node_vy m) * 0.9)\<rparr>"
    by (simp add: integrate_def at_rest_def Let_def)
  also have "\<dots> =
     (at_rest n)\<lparr>node_x := Some (max 20 (min 580 (or0 (node_x n) + or0 (node_vx m) * 0.9))),
       node_y := Some (max 20 (min 380 (or0 (node_y n) + or0 (node_vy m) * 0.9))),
       node_vx := Some (or0 (node_vx m) * 0.9),
       node_vy := Some (or0 (node_vy m) * 0.9)\<rparr>"
    using assms at_rest_fields[OF assms] by simp
  finally show ?thesis by (simp add: at_rest_def)
qed

lemma tick_nodes_eq:
  "map integrate (apply_links (apply_forces ns) ls) = map (tick_node or1 ns ls) [0..<length ns]"
proof (rule nth_equalityI)
  show "length (map integrate (apply_links (apply_forces ns) ls))
      = length (map (tick_node or1 ns ls) [0..<length ns])"
    by (simp add: length_apply_links length_apply_forces)
next
  fix k
  assume "k < length (map integrate (apply_links (apply_forces ns) ls))"
  then have k: "k < length ns" by (simp add: length_apply_links length_apply_forces)
  let ?f = "apply_forces ns" and ?m = "apply_links (apply_forces ns) ls"
  have f: "map at_rest ?f = map at_rest ns" by (rule apply_forces_rest)
  have kf: "k < length ?f" using k by (simp add: length_apply_forces)
  have km: "k < length ?m" using k by (simp add: length_apply_links length_apply_forces)
  have m: "map at_rest ?m = map at_rest ns"
    and vx: "or0 (node_vx (?m ! k)) = or0 (node_vx (?f ! k)) + (\<Sum>l\<leftarrow>ls. link_pull_x ns k l)"
    and vy: "or0 (node_vy (?m ! k)) = or0 (node_vy (?f ! k)) + (\<Sum>l\<leftarrow>ls. link_pull_y ns k l)"
    using apply_links_props[OF f, of ls] kf by simp_all
  have r: "at_rest (?m ! k) = at_rest (ns ! k)" using rest_nth[OF m km] .
  have "or0 (node_vx (?m ! k)) * 0.9 = tick_vx or1 ns ls k"
    and "or0 (node_vy (?m ! k)) * 0.9 = tick_vy or1 ns ls k"
    unfolding vx vy apply_forces_props(2,3)[OF k] tick_vx_def tick_vy_def
    by (simp_all add: algebra_simps)
  then have "integrate (?m ! k) = tick_node or1 ns ls k"
    unfolding integrate_eq[OF r] tick_node_def by simp
  then show "map integrate ?m ! k = map (tick_node or1 ns ls) [0..<length ns] ! k"
    using k km by simp
qed

lemma simulate_eq_tick: "simulate (Some g) = Some (tick_spec or1 g)"
  by (simp add: simulate_def tick_spec_def tick_nodes_eq)

lemma separation_same_y:
  "node_y a = node_y b \<Longrightarrow> separation a b = \<bar>or0 (node_x a) - or0 (node_x b)\<bar>"
  by (simp add: separation_def)

text \<open>
  Claim C1, as stated, fails on the guard of the distance: the code replaces the distance
  by 1 only when it is exactly 0 (\<^verbatim>\<open>|| 1\<close>), it does not take the maximum with 1. Two
  nodes at distance 0.5 repel with 500 / 0.25 = 2000, not 500; after damping their
  horizontal velocities are -1800 and 1800, where "minimum 1" gives -225 and 225.
\<close>

theorem close_nodes_repulsion_counterexample:
  "node_vx (hd (nodes (the (simulate (Some
      \<lparr>nodes = [\<lparr>node_id = ''a'', node_label = ''A'', node_size = Some 10, node_color = None,
                  node_x = Some 300, node_y = Some 200, node_vx = Some 0, node_vy = Some 0\<rparr>,
                 \<lparr>node_id = ''b'', node_label = ''B'', node_size = Some 10, node_color = None,
                  node_x = Some (601 / 2), node_y = Some 200, node_vx = Some 0, node_vy = Some 0\<rparr>],
        links = []\<rparr>))))) = Some (- 1800)
   \<and> node_vx (hd (nodes (tick_spec (max 1)
      \<lparr>nodes = [\<lparr>node_id = ''a'', node_label = ''A'', node_size = Some 10, node_color = None,
                  node_x = Some 300, node_y = Some 200, node_vx = Some 0, node_vy = Some 0\<rparr>,
                 \<lparr>node_id = ''b'', node_label = ''B'', node_size = Some 10, node_color = None,
                  node_x = Some (601 / 2), node_y = Some 200, node_vx = Some 0, node_vy = Some 0\<rparr>],
        links = []\<rparr>))) = Some (- 225)"
  by (simp add: simulate_eq_tick tick_spec_def tick_node_def tick_vx_def tick_vy_def
      repulsion_x_def repulsion_y_def separation_same_y or1_def)

text \<open>
  Claim C1, amended. One tick computes the five steps of the specification, with the
  distance between two repelling nodes replaced by 1 only when it is exactly 0: for each
  node, the velocity plus 0.01 times the displacement to (300, 200), plus 500 / (d * d) along
  the separation from every node with another identifier, plus, for every link whose two
  endpoints resolve, the spring force (d - 100) * 0.1 added at the source and subtracted
  at the target; the sum is multiplied by 0.9 and added to the position, which is clamped
  to [20, 580] by [20, 380]. Links and node count are unchanged.
\<close>

theorem simulate_is_five_step_tick:
  "simulate prevData = map_option (tick_spec or1) prevData"
  by (cases prevData) (simp_all add: simulate_eq_tick, simp add: simulate_def)

theorem simulate_is_five_step_tick_witness:
  "map node_x (nodes (the (simulate (Some
      \<lparr>nodes = [\<lparr>node_id = ''a'', node_label = ''A'', node_size = Some 10, node_color = None,
                  node_x = Some 100, node_y = Some 200, node_vx = Some 0, node_vy = Some 0\<rparr>,
                 \<lparr>node_id = ''b'', node_label = ''B'', node_size = Some 10, node_color = None,
                  node_x = Some 400, node_y = Some 200, node_vx = Some 0, node_vy = Some 0\<rparr>],
        links = [\<lparr>link_source = EndId ''a'', link_target = EndId ''b'',
                  link_weight = Some 1, link_label = Some ''''\<rparr>]\<rparr>))))
     = [Some (100 + (2 - 1 / 180 + 20) * (9 / 10)), Some (400 + (- 1 + 1 / 180 - 20) * (9 / 10))]"
  using simulate_is_five_step_tick
    [of "Some \<lparr>nodes = [\<lparr>node_id = ''a'', node_label = ''A'', node_size = Some 10, node_color = None,
                  node_x = Some 100, node_y = Some 200, node_vx = Some 0, node_vy = Some 0\<rparr>,
                 \<lparr>node_id = ''b'', node_label = ''B'', node_size = Some 10, node_color = None,
                  node_x = Some 400, node_y = Some 200, node_vx = Some 0, node_vy = Some 0\<rparr>],
        links = [\<lparr>link_source = EndId ''a'', link_target = EndId ''b'',
                  link_weight = Some 1, link_label = Some ''''\<rparr>]\<rparr>"]
  by (simp add: tick_spec_def tick_node_def tick_vx_def tick_vy_def
      repulsion_x_def repulsion_y_def separation_same_y or1_def
      link_pull_x_def link_pull_y_def spring_x_def spring_y_def find_node_def)

section \<open>Links with an endpoint that does not resolve\<close>

lemma find_node_ids: "map node_id ms = map node_id ns \<Longrightarrow> find_node ms e = find_node ns e"
  unfolding find_node_def by (rule find_index_from_cong)

lemma tick_node_skips_unresolved:
  assumes "find_node ns (link_source l) = None \<or> find_node ns (link_target l) = None"
  shows "tick_node guard ns (ls1 @ l # ls2) k = tick_node guard ns (ls1 @ ls2) k"
  using link_pull_unresolved[OF assms]
  by (simp add: tick_node_def tick_vx_def tick_vy_def)

text \<open>
  Claim C3. A link with a source or a target that no node of the current node set has as
  its identifier is a no-op: the link step of the tick returns the nodes as they are
  (whatever their velocities), a whole tick gives the same nodes as without this link,
  rendering gives \<^verbatim>\<open>null\<close> for it, and the rendered graph still has the circle of every
  node. Both functions are total: there is no error branch on these paths.
\<close>

theorem unresolved_link_is_noop:
  assumes "find_node (nodes g) (link_source l) = None \<or> find_node (nodes g) (link_target l) = None"
  shows "(\<forall>ms. map node_id ms = map node_id (nodes g) \<longrightarrow> link_force ms l = ms)
       \<and> simulate (Some (g\<lparr>links := ls1 @ l # ls2\<rparr>))
           = map_option (\<lambda>g'. g'\<lparr>links := ls1 @ l # ls2\<rparr>) (simulate (Some (g\<lparr>links := ls1 @ ls2\<rparr>)))
       \<and> render_link (nodes g) l = None
       \<and> (graphData st = Some (g\<lparr>links := ls1 @ l # ls2\<rparr>) \<and> \<not> isLoading st \<longrightarrow>
            render_graph st
              = Some (map (render_link (nodes g)) ls1 @ None # map (render_link (nodes g)) ls2,
                      map (render_node (selectedNode st)) (nodes g)))"
proof -
  have "link_force ms l = ms" if "map node_id ms = map node_id (nodes g)" for ms
    using assms find_node_ids[OF that] by (intro link_force_unresolved) simp
  moreover have "simulate (Some (g\<lparr>links := ls1 @ l # ls2\<rparr>))
      = map_option (\<lambda>g'. g'\<lparr>links := ls1 @ l # ls2\<rparr>) (simulate (Some (g\<lparr>links := ls1 @ ls2\<rparr>)))"
    using tick_node_skips_unresolved[OF assms, of or1 ls1 ls2]
    by (simp add: simulate_eq_tick tick_spec_def)
  moreover have "render_link (nodes g) l = None"
    using assms by (auto simp add: render_link_def split: option.splits)
  ultimately show ?thesis by (simp add: render_graph_def)
qed

theorem unresolved_link_is_noop_witness:
  "(find_node [\<lparr>node_id = ''a'', node_label = ''Concept 1'', node_size = Some 20, node_color = Some ''#dc2626'',
                node_x = Some 300, node_y = Some 250, node_vx = Some 0, node_vy = Some 0\<rparr>,
               \<lparr>node_id = ''b'', node_label = ''Concept 2'', node_size = Some 20, node_color = Some ''#f59e0b'',
                node_x = Some 300, node_y = Some 250, node_vx = Some 0, node_vy = Some 0\<rparr>] (EndId ''a'') = None
    \<or> find_node [\<lparr>node_id = ''a'', node_label = ''Concept 1'', node_size = Some 20, node_color = Some ''#dc2626'',
                node_x = Some 300, node_y = Some 250, node_vx = Some 0, node_vy = Some 0\<rparr>,
               \<lparr>node_id = ''b'', node_label = ''Concept 2'', node_size = Some 20, node_color = Some ''#f59e0b'',
                node_x = Some 300, node_y = Some 250, node_vx = Some 0, node_vy = Some 0\<rparr>] (EndId ''z'') = None)
   \<and> render_graph (initial_graph_view\<lparr>graphData := Some
        \<lparr>nodes = [\<lparr>node_id = ''a'', node_label = ''Concept 1'', node_size = Some 20, node_color = Some ''#dc2626'',
                    node_x = Some 300, node_y = Some 250, node_vx = Some 0, node_vy = Some 0\<rparr>,
                   \<lparr>node_id = ''b'', node_label = ''Concept 2'', node_size = Some 20, node_color = Some ''#f59e0b'',
                    node_x = Some 300, node_y = Some 250, node_vx = Some 0, node_vy = Some 0\<rparr>],
          links = [\<lparr>link_source = EndId ''a'', link_target = EndId ''z'',
                    link_weight = Some 1, link_label = Some ''''\<rparr>]\<rparr>\<rparr>)
     = Some ([None],
             [\<lparr>circle_cx = Some 300, circle_cy = Some 250, circle_r = Some 20,
               circle_fill = Some ''#dc2626'', circle_stroke = ''#fff'', circle_strokeWidth = 2,
               text_x = Some 300, text_y = Some 285, text_content = ''Concept 1''\<rparr>,
              \<lparr>circle_cx = Some 300, circle_cy = Some 250, circle_r = Some 20,
               circle_fill = Some ''#f59e0b'', circle_stroke = ''#fff'', circle_strokeWidth = 2,
               text_x = Some 300, text_y = Some 285, text_content = ''Concept 2''\<rparr>])"
  using unresolved_link_is_noop
    [of "\<lparr>nodes = [\<lparr>node_id = ''a'', node_label = ''Concept 1'', node_size = Some 20, node_color = Some ''#dc2626'',
                    node_x = Some 300, node_y = Some 250, node_vx = Some 0, node_vy = Some 0\<rparr>,
                   \<lparr>node_id = ''b'', node_label = ''Concept 2'', node_size = Some 20, node_color = Some ''#f59e0b'',
                    node_x = Some 300, node_y = Some 250, node_vx = Some 0, node_vy = Some 0\<rparr>],
          links = []\<rparr>"
        "\<lparr>link_source = EndId ''a'', link_target = EndId ''z'',
          link_weight = Some 1, link_label = Some ''''\<rparr>"
        "[]" "[]"
        "initial_graph_view\<lparr>graphData := Some
        \<lparr>nodes = [\<lparr>node_id = ''a'', node_label = ''Concept 1'', node_size = Some 20, node_color = Some ''#dc2626'',
                    node_x = Some 300, node_y = Some 250, node_vx = Some 0, node_vy = Some 0\<rparr>,
                   \<lparr>node_id = ''b'', node_label = ''Concept 2'', node_size = Some 20, node_color = Some ''#f59e0b'',
                    node_x = Some 300, node_y = Some 250, node_vx = Some 0, node_vy = Some 0\<rparr>],
          links = [\<lparr>link_source = EndId ''a'', link_target = EndId ''z'',
                    link_weight = Some 1, link_label = Some ''''\<rparr>]\<rparr>\<rparr>"]
  by (simp add: find_node_def initial_graph_view_def render_node_def)

section \<open>Dragging a node\<close>








end
